theory Spec2Isabelle
  imports Complex_Main "HOL-Library.Word"
begin

section \<open>JavaScript values\<close>

text \<open>
  The library is JavaScript for RingoJS. Its values are embedded as a datatype. A string
  is the list of its UTF-16 code units, so that \<open>length\<close> is the \<open>.length\<close> of the
  source. A number is a rational (every finite double is one) or one of the three special
  values. An object literal is the list of its properties in insertion order.
\<close>

type_synonym jschar = "16 word"
type_synonym jsstring = "jschar list"

definition str :: "string \<Rightarrow> jsstring" where
  "str s = map of_char s"

datatype jsnum = Fin rat | NaN | PosInf | NegInf

text \<open>
  An \<open>io.Stream\<close> is known by its handle; \<open>isTextStream\<close> says whether it is an
  \<open>io.TextStream\<close> (whose prototype derives from \<open>Stream\<close>). Whether a stream is
  closed is part of the world state below.
\<close>

datatype stream = Stream (handle: nat) (isTextStream: bool)

datatype jsval =
    JUndefined
  | JNull
  | JBool bool
  | JNum jsnum
  | JStr jsstring
  | JArr "jsval list"
  | JObj "(jsstring \<times> jsval) list"
  | JStream stream
  | JPath jsstring
  | JMultipartStream jsval stream
  | JObjectsModule

text \<open>
  \<open>JMultipartStream name stream\<close> is an instance of the library's \<open>MultipartStream\<close>,
  \<open>JPath\<close> an \<open>fs.Path\<close>, and \<open>JObjectsModule\<close> the object bound to the constant
  \<open>objects\<close> by \<open>require("ringo/utils/objects")\<close>.
\<close>

text \<open>\<open>v == null\<close>\<close>

fun looseNull :: "jsval \<Rightarrow> bool" where
  "looseNull JUndefined = True"
| "looseNull JNull = True"
| "looseNull _ = False"

text \<open>The truth value of \<open>v\<close> in \<open>if (v)\<close>, \<open>v ? a : b\<close> and \<open>!v\<close>.\<close>

fun truthy :: "jsval \<Rightarrow> bool" where
  "truthy JUndefined = False"
| "truthy JNull = False"
| "truthy (JBool b) = b"
| "truthy (JNum n) = (n \<noteq> Fin 0 \<and> n \<noteq> NaN)"
| "truthy (JStr s) = (s \<noteq> [])"
| "truthy _ = True"

text \<open>\<open>v instanceof Object\<close>: false for every primitive value.\<close>

fun instanceofObject :: "jsval \<Rightarrow> bool" where
  "instanceofObject JUndefined = False"
| "instanceofObject JNull = False"
| "instanceofObject (JBool b) = False"
| "instanceofObject (JNum n) = False"
| "instanceofObject (JStr s) = False"
| "instanceofObject _ = True"

fun isPrimitive :: "jsval \<Rightarrow> bool" where
  "isPrimitive v = (\<not> instanceofObject v)"

subsection \<open>Property access\<close>

text \<open>The decimal spelling of an array index, as a property name.\<close>

function decimal :: "nat \<Rightarrow> jsstring" where
  "decimal n = (if n < 10 then [of_nat (48 + n)]
                else decimal (n div 10) @ [of_nat (48 + n mod 10)])"
  by pat_completeness auto
termination
  by (relation "measure id") auto

definition arrayIndex :: "nat \<Rightarrow> jsstring \<Rightarrow> nat option" where
  "arrayIndex n k = find (\<lambda>i. decimal i = k) [0..<n]"

text \<open>
  \<open>v[k]\<close> for a value \<open>v\<close> that is neither \<open>null\<close> nor \<open>undefined\<close>. A key
  written twice in a property list is read at its first binding. Properties inherited
  from the built-in prototypes (methods) are not modelled; the library reads data
  properties only.
\<close>

fun getProp :: "jsval \<Rightarrow> jsstring \<Rightarrow> jsval" where
  "getProp (JObj ps) k = (case map_of ps k of Some v \<Rightarrow> v | None \<Rightarrow> JUndefined)"
| "getProp (JArr xs) k =
     (if k = str ''length'' then JNum (Fin (of_nat (length xs)))
      else case arrayIndex (length xs) k of Some i \<Rightarrow> xs ! i | None \<Rightarrow> JUndefined)"
| "getProp (JStr s) k =
     (if k = str ''length'' then JNum (Fin (of_nat (length s)))
      else case arrayIndex (length s) k of Some i \<Rightarrow> JStr [s ! i] | None \<Rightarrow> JUndefined)"
| "getProp (JMultipartStream n s) k =
     (if k = str ''name'' then n else if k = str ''stream'' then JStream s else JUndefined)"
| "getProp _ k = JUndefined"

datatype error =
    StatusError int jsstring
  | ApiError jsval jsval
  | CouldNotParse error
  | SyntaxError
  | TypeError
  | InsufficientParameters string
  | InvalidPayload
  | InvalidMultipartStream
  | ReferenceError string
  | RequestFailed jsstring

text \<open>
  Every \<open>throw new Error(...)\<close> of the source is one constructor, which keeps the values
  the message is built from instead of the concatenated text:
  \<^item> \<open>StatusError status content\<close>:
    \<open>"Telegram Bot API returned status: " + status + "; " + content\<close>;
  \<^item> \<open>ApiError code description\<close>:
    \<open>"Telegram API error code " + error_code + "; " + description\<close>;
  \<^item> \<open>CouldNotParse e\<close>: \<open>"Could not parse JSON response by Telegram Bot API: " + e\<close>,
    thrown by the \<open>catch (e)\<close> of the envelope decoder;
  \<^item> \<open>InsufficientParameters path\<close>: \<open>"Insufficient parameters for " + path\<close>, the
    validation error of the operations;
  \<^item> \<open>InvalidPayload\<close> and \<open>InvalidMultipartStream\<close>: the two \<open>"Invalid ..."\<close> errors.
  \<open>SyntaxError\<close>, \<open>TypeError\<close> and \<open>ReferenceError\<close> are raised by the runtime
  (\<open>JSON.parse\<close> on malformed text; a property read on \<open>null\<close> or the conversion
  of an object that has no primitive value; an unbound identifier),
  \<open>RequestFailed\<close> by the HTTP client when no exchange takes place.
\<close>

text \<open>\<open>v.k\<close>, which throws a \<open>TypeError\<close> on \<open>null\<close> and \<open>undefined\<close>.\<close>

definition member :: "jsval \<Rightarrow> jsstring \<Rightarrow> error + jsval" where
  "member v k = (if looseNull v then Inl TypeError else Inr (getProp v k))"

section \<open>The runtime and the world\<close>

record exchange =
  status :: int
  content :: jsstring

datatype partData = StringOf jsval | FromStream stream

datatype part =
    TextPart partData string "jsval option"
  | BinaryPart stream jsval

datatype body = EmptyText | JSON_stringify jsval | Parts "(jsstring \<times> part) list"

record httpRequest =
  reqUrl :: jsstring
  reqMethod :: string
  reqData :: body
  reqHeaders :: "(string \<times> string) list"

datatype reply = Returns exchange | Raises jsstring

text \<open>
  What the library imports and does not define is a parameter of the model:
  \<^item> \<open>request\<close> of \<open>ringo/httpclient\<close>, which answers with an exchange or throws;
  \<^item> \<open>JSON.parse\<close> (\<open>None\<close> when it throws a \<open>SyntaxError\<close>);
  \<^item> \<open>merge\<close> of \<open>ringo/utils/objects\<close>, the function the operations call as
    \<open>objects.merge\<close>;
  \<^item> the conversions of the runtime: \<open>ToPrimitive\<close> of an object with the hint of the
    conversion (default for \<open>+\<close>, number for \<open><\<close> and \<open>>\<close>, string for \<open>String\<close>;
    \<open>None\<close> when it throws a \<open>TypeError\<close>, as it does for an object whose
    \<open>toString\<close> and \<open>valueOf\<close> give no primitive value), and \<open>ToNumber\<close> of a string;
  \<^item> the binding of an identifier that the module itself does not declare.
\<close>

datatype hint = HintDefault | HintNumber | HintString

record env =
  request :: "httpRequest \<Rightarrow> reply"
  JSON_parse :: "jsstring \<Rightarrow> jsval option"
  objects_merge :: "jsval list \<Rightarrow> jsval"
  toPrimitiveObject :: "hint \<Rightarrow> jsval \<Rightarrow> jsval option"
  stringToNumber :: "jsstring \<Rightarrow> jsnum"
  globalScope :: "string \<Rightarrow> jsval option"

text \<open>
  \<open>ToPrimitive\<close>: a primitive value is its own primitive; the primitive of an object is
  the runtime's, and a conversion that yields no primitive value throws.
\<close>

definition toPrimitive :: "env \<Rightarrow> hint \<Rightarrow> jsval \<Rightarrow> jsval option" where
  "toPrimitive env h v =
     (if instanceofObject v
      then (case toPrimitiveObject env h v of
              None \<Rightarrow> None
            | Some p \<Rightarrow> if instanceofObject p then None else Some p)
      else Some v)"

text \<open>
  The world: the requests sent so far, the handles of the streams that are closed, and
  the next handle \<open>openRaw\<close> hands out.
\<close>

record world =
  sent :: "httpRequest list"
  closed :: "nat set"
  nextHandle :: nat

type_synonym 'a result = "(error + 'a) \<times> world"

section \<open>The envelope decoder\<close>

text \<open>
  \<^verbatim>\<open>
  const processExchange = function(exchange) {
      if(exchange.status !== 200) {
          throw new Error("Telegram Bot API returned status: " + exchange.status + "; " + exchange.content);
      }
      try {
          const resp = JSON.parse(exchange.content);
          if (resp.ok === true) {
              return resp.result;
          } else {
              throw new Error("Telegram API error code " + resp.error_code + "; " + resp.description);
          }
      } catch (e) {
          throw new Error("Could not parse JSON response by Telegram Bot API: " + e);
      }
  };
  \<close>
  \<open>decodeBody\<close> is the body of the \<open>try\<close> block; \<open>processExchange\<close> wraps whatever
  it throws, as the \<open>catch\<close> does. The message of the API error is a concatenation,
  which converts \<open>error_code\<close> and \<open>description\<close> to primitives and throws a
  \<open>TypeError\<close> where one of them has none.
\<close>

definition decodeBody :: "env \<Rightarrow> exchange \<Rightarrow> error + jsval" where
  "decodeBody env ex =
     (case JSON_parse env (content ex) of
        None \<Rightarrow> Inl SyntaxError
      | Some resp \<Rightarrow>
          (case member resp (str ''ok'') of
             Inl e \<Rightarrow> Inl e
           | Inr ok \<Rightarrow>
               if ok = JBool True then member resp (str ''result'')
               else (case member resp (str ''error_code'') of
                       Inl e \<Rightarrow> Inl e
                     | Inr code \<Rightarrow>
                         (case member resp (str ''description'') of
                            Inl e \<Rightarrow> Inl e
                          | Inr description \<Rightarrow>
                              if toPrimitive env HintDefault code = None
                                 \<or> toPrimitive env HintDefault description = None
                              then Inl TypeError
                              else Inl (ApiError code description)))))"

definition processExchange :: "env \<Rightarrow> exchange \<Rightarrow> error + jsval" where
  "processExchange env ex =
     (if status ex \<noteq> 200 then Inl (StatusError (status ex) (content ex))
      else case decodeBody env ex of
             Inl e \<Rightarrow> Inl (CouldNotParse e)
           | Inr v \<Rightarrow> Inr v)"

section \<open>The two dispatch helpers\<close>

record TelegramBot =
  baseURI :: jsstring

text \<open>\<open>new TelegramBot(token)\<close>\<close>

definition newTelegramBot :: "jsstring \<Rightarrow> TelegramBot" where
  "newTelegramBot token = \<lparr>baseURI = str ''https://api.telegram.org/bot'' @ token\<rparr>"

definition throw :: "error \<Rightarrow> world \<Rightarrow> 'a result" where
  "throw e w = (Inl e, w)"

text \<open>
  \<open>request(...)\<close> followed by \<open>processExchange\<close>: the request is recorded in the world,
  and an exception of the HTTP client propagates as it is.
\<close>

definition exchangeOf :: "env \<Rightarrow> httpRequest \<Rightarrow> world \<Rightarrow> jsval result" where
  "exchangeOf env req w =
     (case request env req of
        Raises e \<Rightarrow> Inl (RequestFailed e)
      | Returns ex \<Rightarrow> processExchange env ex,
      w\<lparr>sent := sent w @ [req]\<rparr>)"

text \<open>
  \<^verbatim>\<open>
  this._request = function(path, payload) {
      if (payload != null && !payload instanceof  Object) {
          throw new Error("Invalid payload for Telegram API: " + typeof obj);
      }
      return processExchange(request({
          url: baseURI + path,
          method: "POST",
          data: payload ? JSON.stringify(payload) : "",
          headers: {
              "Cache-Control": "no-cache, no-store",
              "Content-Type": "application/json; charset=utf-8"
          }
      }));
  };
  \<close>
  \<open>!payload instanceof Object\<close> parses as \<open>(!payload) instanceof Object\<close>.
\<close>

definition jsonRequest :: "TelegramBot \<Rightarrow> string \<Rightarrow> jsval \<Rightarrow> httpRequest" where
  "jsonRequest self path payload =
     \<lparr>reqUrl = baseURI self @ str path,
      reqMethod = ''POST'',
      reqData = (if truthy payload then JSON_stringify payload else EmptyText),
      reqHeaders = [(''Cache-Control'', ''no-cache, no-store''),
                    (''Content-Type'', ''application/json; charset=utf-8'')]\<rparr>"

definition bot_request :: "env \<Rightarrow> TelegramBot \<Rightarrow> string \<Rightarrow> jsval \<Rightarrow> world \<Rightarrow> jsval result" where
  "bot_request env self path payload w =
     (if \<not> looseNull payload \<and> instanceofObject (JBool (\<not> truthy payload))
      then throw InvalidPayload w
      else exchangeOf env (jsonRequest self path payload) w)"

subsection \<open>Iteration over properties\<close>

text \<open>
  The names \<open>for (let name in v)\<close> visits: the keys of an object in insertion order, the
  indices of an array or a string, the two fields of a \<open>MultipartStream\<close>, and nothing for
  \<open>null\<close>, \<open>undefined\<close>, numbers and booleans.
\<close>

fun forInKeys :: "jsval \<Rightarrow> jsstring list" where
  "forInKeys (JObj ps) = map fst ps"
| "forInKeys (JArr xs) = map decimal [0..<length xs]"
| "forInKeys (JStr s) = map decimal [0..<length s]"
| "forInKeys (JMultipartStream n s) = [str ''name'', str ''stream'']"
| "forInKeys _ = []"

text \<open>\<open>o[k] = v\<close> on a property list: an existing key keeps its place.\<close>

fun setProp :: "(jsstring \<times> 'a) list \<Rightarrow> jsstring \<Rightarrow> 'a \<Rightarrow> (jsstring \<times> 'a) list" where
  "setProp [] k v = [(k, v)]"
| "setProp ((k', v') # ps) k v = (if k' = k then (k, v) # ps else (k', v') # setProp ps k v)"

subsection \<open>Multipart dispatch\<close>

text \<open>
  \<^verbatim>\<open>
  this._requestMultipart = function(path, payload) {
      if (payload != null && !payload instanceof  Object) {
          throw new Error("Invalid payload for Telegram API: " + typeof obj);
      }
      const multipartPayload = {};
      for (let name in payload) {
          if (payload[name] instanceof MultipartStream) {
              let multiStream = payload[name];
              if (multiStream.stream instanceof TextStream) {
                  multipartPayload[name] = new TextPart(multiStream.stream, "utf-8", multiStream.name)
              } else {
                  multipartPayload[name] = new BinaryPart(multiStream.stream, multiStream.name);
              }
          } else {
              multipartPayload[name] = new TextPart(String(payload[name]), "utf-8");
          }
      }
      try {
          return processExchange(request({
              url: baseURI + path,
              method: "POST",
              data: multipartPayload,
              headers: {
                  "Cache-Control": "no-cache, no-store",
                  "Content-Type": "multipart/form-data"
              }
          }));
      } finally {
          for (let name in payload) {
              if (payload[name] instanceof MultipartStream && !payload[name].stream.closed()) {
                  payload[name].stream.close();
              }
          }
      }
  }
  \<close>
\<close>

text \<open>
  \<open>String(v)\<close> converts an object to a primitive first and throws a \<open>TypeError\<close> when
  there is none; the text of a primitive always exists, and \<open>StringOf v\<close> stands for it.
\<close>

definition js_String :: "env \<Rightarrow> jsval \<Rightarrow> error + partData" where
  "js_String env v =
     (case toPrimitive env HintString v of
        None \<Rightarrow> Inl TypeError
      | Some p \<Rightarrow> Inr (StringOf v))"

text \<open>The part of one value of the payload: the body of the first loop.\<close>

definition partOf :: "env \<Rightarrow> jsval \<Rightarrow> error + part" where
  "partOf env v =
     (case v of
        JMultipartStream n s \<Rightarrow>
          (if isTextStream s then Inr (TextPart (FromStream s) ''utf-8'' (Some n))
           else Inr (BinaryPart s n))
      | _ \<Rightarrow>
          (case js_String env v of
             Inl e \<Rightarrow> Inl e
           | Inr t \<Rightarrow> Inr (TextPart t ''utf-8'' None)))"

text \<open>
  The first loop, which runs before the \<open>try\<close>: it ends at the first value whose
  conversion throws.
\<close>

fun buildParts ::
  "env \<Rightarrow> jsval \<Rightarrow> (jsstring \<times> part) list \<Rightarrow> jsstring list
     \<Rightarrow> error + (jsstring \<times> part) list" where
  "buildParts env payload mp [] = Inr mp"
| "buildParts env payload mp (name # names) =
     (case partOf env (getProp payload name) of
        Inl e \<Rightarrow> Inl e
      | Inr p \<Rightarrow> buildParts env payload (setProp mp name p) names)"

definition multipartPayload :: "env \<Rightarrow> jsval \<Rightarrow> error + (jsstring \<times> part) list" where
  "multipartPayload env payload = buildParts env payload [] (forInKeys payload)"

definition multipartRequest ::
  "TelegramBot \<Rightarrow> string \<Rightarrow> (jsstring \<times> part) list \<Rightarrow> httpRequest" where
  "multipartRequest self path parts =
     \<lparr>reqUrl = baseURI self @ str path,
      reqMethod = ''POST'',
      reqData = Parts parts,
      reqHeaders = [(''Cache-Control'', ''no-cache, no-store''),
                    (''Content-Type'', ''multipart/form-data'')]\<rparr>"

text \<open>One round of the loop in the \<open>finally\<close> block.\<close>

definition closeStep :: "jsval \<Rightarrow> world \<Rightarrow> jsstring \<Rightarrow> world" where
  "closeStep payload w name =
     (case getProp payload name of
        JMultipartStream n s \<Rightarrow>
          (if handle s \<notin> closed w then w\<lparr>closed := insert (handle s) (closed w)\<rparr> else w)
      | _ \<Rightarrow> w)"

definition closeStreams :: "jsval \<Rightarrow> world \<Rightarrow> world" where
  "closeStreams payload w = foldl (closeStep payload) w (forInKeys payload)"

definition bot_requestMultipart ::
  "env \<Rightarrow> TelegramBot \<Rightarrow> string \<Rightarrow> jsval \<Rightarrow> world \<Rightarrow> jsval result" where
  "bot_requestMultipart env self path payload w =
     (if \<not> looseNull payload \<and> instanceofObject (JBool (\<not> truthy payload))
      then throw InvalidPayload w
      else case multipartPayload env payload of
             Inl e \<Rightarrow> throw e w
           | Inr parts \<Rightarrow>
               (case exchangeOf env (multipartRequest self path parts) w of
                  (r, w') \<Rightarrow> (r, closeStreams payload w')))"

subsection \<open>Upload descriptors\<close>

text \<open>
  \<^verbatim>\<open>
  const MultipartStream = exports.MultipartStream = function(name, source) {
      if (name == null || (!(source instanceof Stream) && !(source instanceof Path))) {
          throw new Error("Invalid parameters for MultipartStream.");
      }
      this.name = name;
      this.stream = (source instanceof Stream ? source : openRaw(source, "r"));
  };
  \<close>
  \<open>openRaw\<close> returns a new binary stream, which is open; its handle is the next one of
  the world. The model has no file system: the path is taken to be readable.
\<close>

fun instanceofStream :: "jsval \<Rightarrow> bool" where
  "instanceofStream (JStream s) = True"
| "instanceofStream _ = False"

fun instanceofPath :: "jsval \<Rightarrow> bool" where
  "instanceofPath (JPath p) = True"
| "instanceofPath _ = False"

definition openRaw :: "world \<Rightarrow> stream \<times> world" where
  "openRaw w =
     (Stream (nextHandle w) False,
      w\<lparr>closed := closed w - {nextHandle w}, nextHandle := Suc (nextHandle w)\<rparr>)"

definition newMultipartStream :: "jsval \<Rightarrow> jsval \<Rightarrow> world \<Rightarrow> jsval result" where
  "newMultipartStream name source w =
     (if looseNull name \<or> (\<not> instanceofStream source \<and> \<not> instanceofPath source)
      then throw InvalidMultipartStream w
      else case source of
             JStream s \<Rightarrow> (Inr (JMultipartStream name s), w)
           | _ \<Rightarrow> (case openRaw w of (s, w') \<Rightarrow> (Inr (JMultipartStream name s), w')))"

section \<open>Runtime functions the operations use\<close>

subsection \<open>Relational operators\<close>

text \<open>
  \<open>js_less env x y\<close> is \<open>x < y\<close>, and \<open>x > y\<close> is \<open>js_less env y x\<close>. Both operands
  are turned into primitives with the hint number, which throws a \<open>TypeError\<close> for an
  object that has none; two strings are then compared by code units, every other pair as
  numbers (\<open>ToNumber\<close>), and a comparison with \<open>NaN\<close> is false.
\<close>

fun num_less :: "jsnum \<Rightarrow> jsnum \<Rightarrow> bool" where
  "num_less NaN y = False"
| "num_less x NaN = False"
| "num_less (Fin a) (Fin b) = (a < b)"
| "num_less PosInf y = False"
| "num_less x PosInf = True"
| "num_less x NegInf = False"
| "num_less NegInf y = True"

fun toNumber :: "env \<Rightarrow> jsval \<Rightarrow> jsnum" where
  "toNumber env JUndefined = NaN"
| "toNumber env JNull = Fin 0"
| "toNumber env (JBool b) = Fin (if b then 1 else 0)"
| "toNumber env (JNum n) = n"
| "toNumber env (JStr s) = stringToNumber env s"
| "toNumber env v = NaN"

definition less_primitive :: "env \<Rightarrow> jsval \<Rightarrow> jsval \<Rightarrow> bool" where
  "less_primitive env px py =
     (case (px, py) of
        (JStr a, JStr b) \<Rightarrow> lexordp (<) a b
      | _ \<Rightarrow> num_less (toNumber env px) (toNumber env py))"

definition js_less :: "env \<Rightarrow> jsval \<Rightarrow> jsval \<Rightarrow> error + bool" where
  "js_less env x y =
     (case toPrimitive env HintNumber x of
        None \<Rightarrow> Inl TypeError
      | Some px \<Rightarrow>
          (case toPrimitive env HintNumber y of
             None \<Rightarrow> Inl TypeError
           | Some py \<Rightarrow> Inr (less_primitive env px py)))"

text \<open>
  \<open>d1 || d2 || ...\<close> as the condition of an \<open>if\<close>, where a disjunct may throw: the
  disjuncts are consulted from the left, up to the first that is true or throws.
\<close>

fun js_any :: "(error + bool) list \<Rightarrow> error + bool" where
  "js_any [] = Inr False"
| "js_any (Inl e # ds) = Inl e"
| "js_any (Inr True # ds) = Inr True"
| "js_any (Inr False # ds) = js_any ds"

text \<open>\<open>Number.isSafeInteger(v)\<close>\<close>

fun isSafeInteger :: "jsval \<Rightarrow> bool" where
  "isSafeInteger (JNum (Fin q)) = (frac q = 0 \<and> \<bar>q\<bar> \<le> 2 ^ 53 - 1)"
| "isSafeInteger _ = False"

text \<open>\<open>v instanceof Array\<close>\<close>

fun instanceofArray :: "jsval \<Rightarrow> bool" where
  "instanceofArray (JArr xs) = True"
| "instanceofArray _ = False"

text \<open>\<open>a || b\<close>\<close>

definition js_or :: "jsval \<Rightarrow> jsval \<Rightarrow> jsval" where
  "js_or a b = (if truthy a then a else b)"

subsection \<open>A model of \<open>objects.merge\<close>\<close>

text \<open>
  The operations call \<open>objects.merge\<close> of the RingoJS module \<open>ringo/utils/objects\<close>.
  The module belongs to the RingoJS runtime and is not among the sources of this
  library, so the operations below take it from the environment (\<open>objects_merge env\<close>).
  \<open>ringoMerge\<close> is a model of it, written after the documentation of RingoJS and not
  after any source of this repository: the keywise union of the arguments in which, for a
  key that several arguments have, the value of the earliest argument takes precedence,
  obtained by copying the enumerable properties of the arguments, from the last argument
  to the first, into one new object.
\<close>

definition copyProps :: "(jsstring \<times> jsval) list \<Rightarrow> jsval \<Rightarrow> (jsstring \<times> jsval) list" where
  "copyProps result obj =
     foldl (\<lambda>r property. setProp r property (getProp obj property)) result (forInKeys obj)"

definition ringoMerge :: "jsval list \<Rightarrow> jsval" where
  "ringoMerge args = JObj (foldl copyProps [] (rev args))"

section \<open>The operations\<close>

text \<open>
  One definition for each method of \<open>TelegramBot.prototype\<close>, in the order of the
  source. \<open>self\<close> is \<open>this\<close>. The guard of an operation is the condition of its \<open>if\<close>
  (a \<open>js_any\<close> where a disjunct compares a length or a position and so may throw);
  \<open>throw (InsufficientParameters path)\<close> is
  \<open>throw new Error("Insufficient parameters for " + path)\<close> (the message of
  \<open>sendChatAction\<close> lacks the word \<open>for\<close>).
  The guard of \<open>getFile\<close> reads the identifier \<open>getFile\<close>, which is neither a parameter
  nor a variable of the module, so that it is looked up in the global scope.
\<close>

text \<open>
  \<^verbatim>\<open>
  TelegramBot.prototype.setWebhook = function(url, cert) {
      if (cert != null) {
          return this._request("/setWebhook", {
              "url": url
          });
      }
  
      return this._requestMultipart("/setWebhook", {
          "url": url,
          "cert": cert
      });
  };
  \<close>
\<close>

definition setWebhook ::
  "env \<Rightarrow> TelegramBot \<Rightarrow> jsval \<Rightarrow> jsval \<Rightarrow> world \<Rightarrow> jsval result" where
  "setWebhook env self url cert w =
     (if \<not> looseNull cert
      then bot_request env self ''/setWebhook'' (JObj [(str ''url'', url)]) w
      else
        bot_requestMultipart env self ''/setWebhook''
          (JObj [(str ''url'', url),
                 (str ''cert'', cert)])
          w)"

definition getUpdates ::
  "env \<Rightarrow> TelegramBot \<Rightarrow> jsval \<Rightarrow> world \<Rightarrow> jsval result" where
  "getUpdates env self options w =
     bot_request env self ''/getUpdates'' options w"

definition getMe ::
  "env \<Rightarrow> TelegramBot \<Rightarrow> world \<Rightarrow> jsval result" where
  "getMe env self w =
     bot_request env self ''/getMe'' JUndefined w"

text \<open>
  \<^verbatim>\<open>
  TelegramBot.prototype.sendMessage = function(chatId, text, options) {
      if (chatId == null || text == null) {
          throw new Error("Insufficient parameters for /sendMessage");
      }
  
      return this._request("/sendMessage", objects.merge({
          "chat_id": chatId,
          "text": text
      }, options));
  };
  \<close>
\<close>

definition sendMessage ::
  "env \<Rightarrow> TelegramBot \<Rightarrow> jsval \<Rightarrow> jsval \<Rightarrow> jsval \<Rightarrow> world \<Rightarrow> jsval result" where
  "sendMessage env self chatId text options w =
     (if looseNull chatId \<or> looseNull text
      then throw (InsufficientParameters ''/sendMessage'') w
      else
        bot_request env self ''/sendMessage''
          (objects_merge env
             [JObj [(str ''chat_id'', chatId),
                    (str ''text'', text)],
              options])
          w)"

definition answerInlineQuery ::
  "env \<Rightarrow> TelegramBot \<Rightarrow> jsval \<Rightarrow> jsval \<Rightarrow> jsval \<Rightarrow> world \<Rightarrow> jsval result" where
  "answerInlineQuery env self inlineQueryId results options w =
     (if looseNull inlineQueryId
          \<or> looseNull results
          \<or> instanceofArray (JBool (\<not> truthy results))
      then throw (InsufficientParameters ''/answerInlineQuery'') w
      else
        bot_request env self ''/answerInlineQuery''
          (objects_merge env
             [JObj [(str ''inline_query_id'', inlineQueryId),
                    (str ''results'', results)],
              options])
          w)"

definition forwardMessage ::
  "env \<Rightarrow> TelegramBot \<Rightarrow> jsval \<Rightarrow> jsval \<Rightarrow> jsval \<Rightarrow> jsval \<Rightarrow> world \<Rightarrow> jsval result" where
  "forwardMessage env self chatId fromChatId messageId options w =
     (if looseNull chatId \<or> looseNull fromChatId \<or> looseNull messageId
      then throw (InsufficientParameters ''/forwardMessage'') w
      else
        bot_request env self ''/forwardMessage''
          (objects_merge env
             [JObj [(str ''chat_id'', chatId),
                    (str ''from_chat_id'', fromChatId),
                    (str ''message_id'', messageId)],
              options])
          w)"

definition sendPhoto ::
  "env \<Rightarrow> TelegramBot \<Rightarrow> jsval \<Rightarrow> jsval \<Rightarrow> jsval \<Rightarrow> world \<Rightarrow> jsval result" where
  "sendPhoto env self chatId photo options w =
     (if looseNull chatId \<or> looseNull photo
      then throw (InsufficientParameters ''/sendPhoto'') w
      else
        bot_requestMultipart env self ''/sendPhoto''
          (objects_merge env
             [JObj [(str ''chat_id'', chatId),
                    (str ''photo'', photo)],
              options])
          w)"

definition sendAudio ::
  "env \<Rightarrow> TelegramBot \<Rightarrow> jsval \<Rightarrow> jsval \<Rightarrow> jsval \<Rightarrow> world \<Rightarrow> jsval result" where
  "sendAudio env self chatId audio options w =
     (if looseNull chatId \<or> looseNull audio
      then throw (InsufficientParameters ''/sendAudio'') w
      else
        bot_requestMultipart env self ''/sendAudio''
          (objects_merge env
             [JObj [(str ''chat_id'', chatId),
                    (str ''audio'', audio)],
              options])
          w)"

definition sendDocument ::
  "env \<Rightarrow> TelegramBot \<Rightarrow> jsval \<Rightarrow> jsval \<Rightarrow> jsval \<Rightarrow> world \<Rightarrow> jsval result" where
  "sendDocument env self chatId document options w =
     (if looseNull chatId \<or> looseNull document
      then throw (InsufficientParameters ''/sendDocument'') w
      else
        bot_requestMultipart env self ''/sendDocument''
          (objects_merge env
             [JObj [(str ''chat_id'', chatId),
                    (str ''document'', document)],
              options])
          w)"

definition sendSticker ::
  "env \<Rightarrow> TelegramBot \<Rightarrow> jsval \<Rightarrow> jsval \<Rightarrow> jsval \<Rightarrow> world \<Rightarrow> jsval result" where
  "sendSticker env self chatId sticker options w =
     (if looseNull chatId \<or> looseNull sticker
      then throw (InsufficientParameters ''/sendSticker'') w
      else
        bot_requestMultipart env self ''/sendSticker''
          (objects_merge env
             [JObj [(str ''chat_id'', chatId),
                    (str ''sticker'', sticker)],
              options])
          w)"

definition sendVideo ::
  "env \<Rightarrow> TelegramBot \<Rightarrow> jsval \<Rightarrow> jsval \<Rightarrow> jsval \<Rightarrow> world \<Rightarrow> jsval result" where
  "sendVideo env self chatId video options w =
     (if looseNull chatId \<or> looseNull video
      then throw (InsufficientParameters ''/sendVideo'') w
      else
        bot_requestMultipart env self ''/sendVideo''
          (objects_merge env
             [JObj [(str ''chat_id'', chatId),
                    (str ''video'', video)],
              options])
          w)"

definition sendVideoNote ::
  "env \<Rightarrow> TelegramBot \<Rightarrow> jsval \<Rightarrow> jsval \<Rightarrow> jsval \<Rightarrow> world \<Rightarrow> jsval result" where
  "sendVideoNote env self chatId videoNote options w =
     (if looseNull chatId \<or> looseNull videoNote
      then throw (InsufficientParameters ''/sendVideoNote'') w
      else
        bot_requestMultipart env self ''/sendVideoNote''
          (objects_merge env
             [JObj [(str ''chat_id'', chatId),
                    (str ''video_note'', videoNote)],
              options])
          w)"

definition sendVoice ::
  "env \<Rightarrow> TelegramBot \<Rightarrow> jsval \<Rightarrow> jsval \<Rightarrow> jsval \<Rightarrow> world \<Rightarrow> jsval result" where
  "sendVoice env self chatId voice options w =
     (if looseNull chatId \<or> looseNull voice
      then throw (InsufficientParameters ''/sendVoice'') w
      else
        bot_requestMultipart env self ''/sendVoice''
          (objects_merge env
             [JObj [(str ''chat_id'', chatId),
                    (str ''voice'', voice)],
              options])
          w)"

definition sendLocation ::
  "env \<Rightarrow> TelegramBot \<Rightarrow> jsval \<Rightarrow> jsval \<Rightarrow> jsval \<Rightarrow> jsval \<Rightarrow> world \<Rightarrow> jsval result" where
  "sendLocation env self chatId latitude longitude options w =
     (if looseNull chatId \<or> looseNull latitude \<or> looseNull longitude
      then throw (InsufficientParameters ''/sendLocation'') w
      else
        bot_request env self ''/sendLocation''
          (objects_merge env
             [JObj [(str ''chat_id'', chatId),
                    (str ''latitude'', latitude),
                    (str ''longitude'', longitude)],
              options])
          w)"

definition sendVenue ::
  "env \<Rightarrow> TelegramBot \<Rightarrow> jsval \<Rightarrow> jsval \<Rightarrow> jsval \<Rightarrow> jsval \<Rightarrow> jsval \<Rightarrow> jsval \<Rightarrow> world \<Rightarrow> jsval result" where
  "sendVenue env self chatId latitude longitude title address options w =
     (if looseNull chatId
          \<or> looseNull latitude
          \<or> looseNull longitude
          \<or> looseNull title
          \<or> looseNull address
      then throw (InsufficientParameters ''/sendVenue'') w
      else
        bot_request env self ''/sendVenue''
          (objects_merge env
             [JObj [(str ''chat_id'', chatId),
                    (str ''latitude'', latitude),
                    (str ''longitude'', longitude),
                    (str ''title'', title),
                    (str ''address'', address)],
              options])
          w)"

definition sendContact ::
  "env \<Rightarrow> TelegramBot \<Rightarrow> jsval \<Rightarrow> jsval \<Rightarrow> jsval \<Rightarrow> jsval \<Rightarrow> world \<Rightarrow> jsval result" where
  "sendContact env self chatId phoneNumber firstName options w =
     (if looseNull chatId \<or> looseNull phoneNumber \<or> looseNull firstName
      then throw (InsufficientParameters ''/sendContact'') w
      else
        bot_request env self ''/sendContact''
          (objects_merge env
             [JObj [(str ''chat_id'', chatId),
                    (str ''phone_number'', phoneNumber),
                    (str ''first_name'', firstName)],
              options])
          w)"

definition sendChatAction ::
  "env \<Rightarrow> TelegramBot \<Rightarrow> jsval \<Rightarrow> jsval \<Rightarrow> world \<Rightarrow> jsval result" where
  "sendChatAction env self chatId action w =
     (if looseNull chatId \<or> looseNull action
      then throw (InsufficientParameters ''/sendChatAction'') w
      else
        bot_request env self ''/sendChatAction''
          (JObj [(str ''chat_id'', chatId),
                 (str ''action'', action)])
          w)"

definition getUserProfilePhotos ::
  "env \<Rightarrow> TelegramBot \<Rightarrow> jsval \<Rightarrow> jsval \<Rightarrow> world \<Rightarrow> jsval result" where
  "getUserProfilePhotos env self userId options w =
     (if looseNull userId
      then throw (InsufficientParameters ''/getUserProfilePhotos'') w
      else
        bot_request env self ''/getUserProfilePhotos''
          (objects_merge env
             [JObj [(str ''user_id'', userId)],
              options])
          w)"

text \<open>
  \<^verbatim>\<open>
  TelegramBot.prototype.getFile = function(fileId) {
      if (getFile == null) {
          throw new Error("Insufficient parameters for /getFile");
      }
  
      return this._request("/getFile", {
          "file_id": fileId
      });
  };
  \<close>
\<close>

definition getFile ::
  "env \<Rightarrow> TelegramBot \<Rightarrow> jsval \<Rightarrow> world \<Rightarrow> jsval result" where
  "getFile env self fileId w =
     (case globalScope env ''getFile'' of
       None \<Rightarrow> throw (ReferenceError ''getFile'') w
     | Some g \<Rightarrow>
         if looseNull g
         then throw (InsufficientParameters ''/getFile'') w
         else bot_request env self ''/getFile'' (JObj [(str ''file_id'', fileId)]) w)"

definition kickChatMember ::
  "env \<Rightarrow> TelegramBot \<Rightarrow> jsval \<Rightarrow> jsval \<Rightarrow> world \<Rightarrow> jsval result" where
  "kickChatMember env self chatId userId w =
     (if looseNull chatId \<or> looseNull userId
      then throw (InsufficientParameters ''/kickChatMember'') w
      else
        bot_request env self ''/kickChatMember''
          (JObj [(str ''chat_id'', chatId),
                 (str ''user_id'', userId)])
          w)"

definition leaveChat ::
  "env \<Rightarrow> TelegramBot \<Rightarrow> jsval \<Rightarrow> world \<Rightarrow> jsval result" where
  "leaveChat env self chatId w =
     (if looseNull chatId
      then throw (InsufficientParameters ''/leaveChat'') w
      else bot_request env self ''/leaveChat'' (JObj [(str ''chat_id'', chatId)]) w)"

definition unbanChatMember ::
  "env \<Rightarrow> TelegramBot \<Rightarrow> jsval \<Rightarrow> jsval \<Rightarrow> world \<Rightarrow> jsval result" where
  "unbanChatMember env self chatId userId w =
     (if looseNull chatId \<or> looseNull userId
      then throw (InsufficientParameters ''/unbanChatMember'') w
      else
        bot_request env self ''/unbanChatMember''
          (JObj [(str ''chat_id'', chatId),
                 (str ''user_id'', userId)])
          w)"

definition getChat ::
  "env \<Rightarrow> TelegramBot \<Rightarrow> jsval \<Rightarrow> world \<Rightarrow> jsval result" where
  "getChat env self chatId w =
     (if looseNull chatId
      then throw (InsufficientParameters ''/getChat'') w
      else bot_request env self ''/getChat'' (JObj [(str ''chat_id'', chatId)]) w)"

definition getChatAdministrators ::
  "env \<Rightarrow> TelegramBot \<Rightarrow> jsval \<Rightarrow> world \<Rightarrow> jsval result" where
  "getChatAdministrators env self chatId w =
     (if looseNull chatId
      then throw (InsufficientParameters ''/getChatAdministrators'') w
      else bot_request env self ''/getChatAdministrators'' (JObj [(str ''chat_id'', chatId)]) w)"

definition getChatMembersCount ::
  "env \<Rightarrow> TelegramBot \<Rightarrow> jsval \<Rightarrow> world \<Rightarrow> jsval result" where
  "getChatMembersCount env self chatId w =
     (if looseNull chatId
      then throw (InsufficientParameters ''/getChatMembersCount'') w
      else bot_request env self ''/getChatMembersCount'' (JObj [(str ''chat_id'', chatId)]) w)"

definition getChatMember ::
  "env \<Rightarrow> TelegramBot \<Rightarrow> jsval \<Rightarrow> jsval \<Rightarrow> world \<Rightarrow> jsval result" where
  "getChatMember env self chatId userId w =
     (if looseNull chatId \<or> looseNull userId
      then throw (InsufficientParameters ''/getChatMember'') w
      else
        bot_request env self ''/getChatMember''
          (JObj [(str ''chat_id'', chatId),
                 (str ''user_id'', userId)])
          w)"

definition answerCallbackQuery ::
  "env \<Rightarrow> TelegramBot \<Rightarrow> jsval \<Rightarrow> jsval \<Rightarrow> world \<Rightarrow> jsval result" where
  "answerCallbackQuery env self callbackQueryId options w =
     (if looseNull callbackQueryId
      then throw (InsufficientParameters ''/answerCallbackQuery'') w
      else
        bot_request env self ''/answerCallbackQuery''
          (objects_merge env
             [JObj [(str ''callback_query_id'', callbackQueryId)],
              options])
          w)"

definition editMessageText ::
  "env \<Rightarrow> TelegramBot \<Rightarrow> jsval \<Rightarrow> jsval \<Rightarrow> world \<Rightarrow> jsval result" where
  "editMessageText env self text options w =
     (if looseNull text \<or> looseNull options
      then throw (InsufficientParameters ''/editMessageText'') w
      else
        bot_request env self ''/editMessageText''
          (objects_merge env
             [JObj [(str ''text'', text)],
              options])
          w)"

text \<open>
  \<^verbatim>\<open>
  TelegramBot.prototype.editMessageCaption = function(options) {
      if (options) {
          throw new Error("Insufficient parameters for /editMessageCaption");
      }
  
      return this._request("/editMessageCaption", objects);
  };
  \<close>
\<close>

definition editMessageCaption ::
  "env \<Rightarrow> TelegramBot \<Rightarrow> jsval \<Rightarrow> world \<Rightarrow> jsval result" where
  "editMessageCaption env self options w =
     (if truthy options
      then throw (InsufficientParameters ''/editMessageCaption'') w
      else bot_request env self ''/editMessageCaption'' JObjectsModule w)"

definition editMessageReplyMarkup ::
  "env \<Rightarrow> TelegramBot \<Rightarrow> jsval \<Rightarrow> world \<Rightarrow> jsval result" where
  "editMessageReplyMarkup env self options w =
     (if looseNull options
      then throw (InsufficientParameters ''/editMessageReplyMarkup'') w
      else bot_request env self ''/editMessageReplyMarkup'' options w)"

definition getWebhookInfo ::
  "env \<Rightarrow> TelegramBot \<Rightarrow> world \<Rightarrow> jsval result" where
  "getWebhookInfo env self w =
     bot_request env self ''/getWebhookInfo'' JUndefined w"

definition deleteMessage ::
  "env \<Rightarrow> TelegramBot \<Rightarrow> jsval \<Rightarrow> jsval \<Rightarrow> world \<Rightarrow> jsval result" where
  "deleteMessage env self chatId messageId w =
     (if looseNull chatId \<or> looseNull messageId
      then throw (InsufficientParameters ''/deleteMessage'') w
      else
        bot_request env self ''/deleteMessage''
          (JObj [(str ''chat_id'', chatId),
                 (str ''message_id'', messageId)])
          w)"

text \<open>
  \<^verbatim>\<open>
  TelegramBot.prototype.restrictChatMember = function(chatId, userId, options) {
      if (chatId == null || userId == null) {
          throw new Error("Insufficient parameters for /restrictChatMember");
      }
  
      return this._request("/restrictChatMember", objects.merge({
          "chat_id": chatId,
          "user_id": userId
      }, (options || {})));
  };
  \<close>
\<close>

definition restrictChatMember ::
  "env \<Rightarrow> TelegramBot \<Rightarrow> jsval \<Rightarrow> jsval \<Rightarrow> jsval \<Rightarrow> world \<Rightarrow> jsval result" where
  "restrictChatMember env self chatId userId options w =
     (if looseNull chatId \<or> looseNull userId
      then throw (InsufficientParameters ''/restrictChatMember'') w
      else
        bot_request env self ''/restrictChatMember''
          (objects_merge env
             [JObj [(str ''chat_id'', chatId),
                    (str ''user_id'', userId)],
              (js_or options (JObj []))])
          w)"

definition promoteChatMember ::
  "env \<Rightarrow> TelegramBot \<Rightarrow> jsval \<Rightarrow> jsval \<Rightarrow> jsval \<Rightarrow> world \<Rightarrow> jsval result" where
  "promoteChatMember env self chatId userId options w =
     (if looseNull chatId \<or> looseNull userId
      then throw (InsufficientParameters ''/promoteChatMember'') w
      else
        bot_request env self ''/promoteChatMember''
          (objects_merge env
             [JObj [(str ''chat_id'', chatId),
                    (str ''user_id'', userId)],
              (js_or options (JObj []))])
          w)"

definition exportChatInviteLink ::
  "env \<Rightarrow> TelegramBot \<Rightarrow> jsval \<Rightarrow> world \<Rightarrow> jsval result" where
  "exportChatInviteLink env self chatId w =
     (if looseNull chatId
      then throw (InsufficientParameters ''/exportChatInviteLink'') w
      else bot_request env self ''/exportChatInviteLink'' (JObj [(str ''chat_id'', chatId)]) w)"

definition setChatPhoto ::
  "env \<Rightarrow> TelegramBot \<Rightarrow> jsval \<Rightarrow> jsval \<Rightarrow> world \<Rightarrow> jsval result" where
  "setChatPhoto env self chatId photo w =
     (if looseNull chatId \<or> looseNull photo
      then throw (InsufficientParameters ''/setChatPhoto'') w
      else
        bot_requestMultipart env self ''/setChatPhoto''
          (JObj [(str ''chat_id'', chatId),
                 (str ''photo'', photo)])
          w)"

definition deleteChatPhoto ::
  "env \<Rightarrow> TelegramBot \<Rightarrow> jsval \<Rightarrow> world \<Rightarrow> jsval result" where
  "deleteChatPhoto env self chatId w =
     (if looseNull chatId
      then throw (InsufficientParameters ''/deleteChatPhoto'') w
      else bot_request env self ''/deleteChatPhoto'' (JObj [(str ''chat_id'', chatId)]) w)"

text \<open>
  \<^verbatim>\<open>
  TelegramBot.prototype.setChatTitle = function(chatId, title) {
      if (chatId == null || title == null || title.length > 255) {
          throw new Error("Insufficient parameters for /setChatTitle");
      }
  
      return this._request("/setChatTitle", {
          "chat_id": chatId,
          "title": title
      });
  };
  \<close>
\<close>

definition setChatTitle ::
  "env \<Rightarrow> TelegramBot \<Rightarrow> jsval \<Rightarrow> jsval \<Rightarrow> world \<Rightarrow> jsval result" where
  "setChatTitle env self chatId title w =
     (case js_any
             [Inr (looseNull chatId),
              Inr (looseNull title),
              js_less env (JNum (Fin 255)) (getProp title (str ''length''))] of
        Inl e \<Rightarrow> throw e w
      | Inr True \<Rightarrow> throw (InsufficientParameters ''/setChatTitle'') w
      | Inr False \<Rightarrow>
          bot_request env self ''/setChatTitle''
            (JObj [(str ''chat_id'', chatId),
                   (str ''title'', title)])
            w)"

definition setChatDescription ::
  "env \<Rightarrow> TelegramBot \<Rightarrow> jsval \<Rightarrow> jsval \<Rightarrow> world \<Rightarrow> jsval result" where
  "setChatDescription env self chatId description w =
     (case js_any
             [Inr (looseNull chatId),
              Inr (looseNull description),
              js_less env (JNum (Fin 255)) (getProp description (str ''length''))] of
        Inl e \<Rightarrow> throw e w
      | Inr True \<Rightarrow> throw (InsufficientParameters ''/setChatDescription'') w
      | Inr False \<Rightarrow>
          bot_request env self ''/setChatDescription''
            (JObj [(str ''chat_id'', chatId),
                   (str ''description'', description)])
            w)"

definition pinChatMessage ::
  "env \<Rightarrow> TelegramBot \<Rightarrow> jsval \<Rightarrow> jsval \<Rightarrow> jsval \<Rightarrow> world \<Rightarrow> jsval result" where
  "pinChatMessage env self chatId messageId options w =
     (if looseNull chatId \<or> looseNull messageId
      then throw (InsufficientParameters ''/pinChatMessage'') w
      else
        bot_request env self ''/pinChatMessage''
          (objects_merge env
             [JObj [(str ''chat_id'', chatId),
                    (str ''message_id'', messageId)],
              (js_or options (JObj []))])
          w)"

definition unpinChatMessage ::
  "env \<Rightarrow> TelegramBot \<Rightarrow> jsval \<Rightarrow> world \<Rightarrow> jsval result" where
  "unpinChatMessage env self chatId w =
     (if looseNull chatId
      then throw (InsufficientParameters ''/unpinChatMessage'') w
      else bot_request env self ''/unpinChatMessage'' (JObj [(str ''chat_id'', chatId)]) w)"

definition getStickerSet ::
  "env \<Rightarrow> TelegramBot \<Rightarrow> jsval \<Rightarrow> world \<Rightarrow> jsval result" where
  "getStickerSet env self name w =
     (if looseNull name
      then throw (InsufficientParameters ''/getStickerSet'') w
      else bot_request env self ''/getStickerSet'' (JObj [(str ''name'', name)]) w)"

definition uploadStickerFile ::
  "env \<Rightarrow> TelegramBot \<Rightarrow> jsval \<Rightarrow> jsval \<Rightarrow> world \<Rightarrow> jsval result" where
  "uploadStickerFile env self userId pngSticker w =
     (if looseNull userId \<or> looseNull pngSticker
      then throw (InsufficientParameters ''/uploadStickerFile'') w
      else
        bot_requestMultipart env self ''/uploadStickerFile''
          (JObj [(str ''user_id'', userId),
                 (str ''png_sticker'', pngSticker)])
          w)"

text \<open>
  \<^verbatim>\<open>
  TelegramBot.prototype.createNewStickerSet = function(userId, name, title, pngSticker, emojis, options) {
      if (userId == null || name == null || name.length > 64 || title == null || title.length > 64 || pngSticker == null || emojis == null) {
          throw new Error("Insufficient parameters for /createNewStickerSet");
      }
  
      return this._requestMultipart("/createNewStickerSet", objects.merge({
          "user_id": userId,
          "name": name,
          "title": title,
          "png_sticker": pngSticker,
          "emojis": emojis
      }, options));
  };
  \<close>
\<close>

definition createNewStickerSet ::
  "env \<Rightarrow> TelegramBot \<Rightarrow> jsval \<Rightarrow> jsval \<Rightarrow> jsval \<Rightarrow> jsval \<Rightarrow> jsval \<Rightarrow> jsval \<Rightarrow> world \<Rightarrow> jsval result" where
  "createNewStickerSet env self userId name title pngSticker emojis options w =
     (case js_any
             [Inr (looseNull userId),
              Inr (looseNull name),
              js_less env (JNum (Fin 64)) (getProp name (str ''length'')),
              Inr (looseNull title),
              js_less env (JNum (Fin 64)) (getProp title (str ''length'')),
              Inr (looseNull pngSticker),
              Inr (looseNull emojis)] of
        Inl e \<Rightarrow> throw e w
      | Inr True \<Rightarrow> throw (InsufficientParameters ''/createNewStickerSet'') w
      | Inr False \<Rightarrow>
          bot_requestMultipart env self ''/createNewStickerSet''
            (objects_merge env
               [JObj [(str ''user_id'', userId),
                      (str ''name'', name),
                      (str ''title'', title),
                      (str ''png_sticker'', pngSticker),
                      (str ''emojis'', emojis)],
                options])
            w)"

definition addStickerToSet ::
  "env \<Rightarrow> TelegramBot \<Rightarrow> jsval \<Rightarrow> jsval \<Rightarrow> jsval \<Rightarrow> jsval \<Rightarrow> jsval \<Rightarrow> jsval \<Rightarrow> world \<Rightarrow> jsval result" where
  "addStickerToSet env self userId name title pngSticker emojis options w =
     (case js_any
             [Inr (looseNull userId),
              Inr (looseNull name),
              js_less env (JNum (Fin 64)) (getProp name (str ''length'')),
              Inr (looseNull title),
              js_less env (JNum (Fin 64)) (getProp title (str ''length'')),
              Inr (looseNull pngSticker),
              Inr (looseNull emojis)] of
        Inl e \<Rightarrow> throw e w
      | Inr True \<Rightarrow> throw (InsufficientParameters ''/addStickerToSet'') w
      | Inr False \<Rightarrow>
          bot_requestMultipart env self ''/addStickerToSet''
            (objects_merge env
               [JObj [(str ''user_id'', userId),
                      (str ''name'', name),
                      (str ''title'', title),
                      (str ''png_sticker'', pngSticker),
                      (str ''emojis'', emojis)],
                options])
            w)"

text \<open>
  \<^verbatim>\<open>
  TelegramBot.prototype.setStickerPositionInSet = function(sticker, position) {
      if (sticker == null || !Number.isSafeInteger(position) || position < 0) {
          throw new Error("Insufficient parameters for /setStickerPositionInSet");
      }
  
      return this._request("/setStickerPositionInSet", {
          "sticker": sticker,
          "position": position
      });
  };
  \<close>
\<close>

definition setStickerPositionInSet ::
  "env \<Rightarrow> TelegramBot \<Rightarrow> jsval \<Rightarrow> jsval \<Rightarrow> world \<Rightarrow> jsval result" where
  "setStickerPositionInSet env self sticker position w =
     (case js_any
             [Inr (looseNull sticker),
              Inr (\<not> isSafeInteger position),
              js_less env position (JNum (Fin 0))] of
        Inl e \<Rightarrow> throw e w
      | Inr True \<Rightarrow> throw (InsufficientParameters ''/setStickerPositionInSet'') w
      | Inr False \<Rightarrow>
          bot_request env self ''/setStickerPositionInSet''
            (JObj [(str ''sticker'', sticker),
                   (str ''position'', position)])
            w)"

definition deleteStickerFromSet ::
  "env \<Rightarrow> TelegramBot \<Rightarrow> jsval \<Rightarrow> world \<Rightarrow> jsval result" where
  "deleteStickerFromSet env self sticker w =
     (if looseNull sticker
      then throw (InsufficientParameters ''/deleteStickerFromSet'') w
      else bot_request env self ''/deleteStickerFromSet'' (JObj [(str ''sticker'', sticker)]) w)"

section \<open>Update helpers\<close>

text \<open>
  \<^verbatim>\<open>
  exports.getHighestUpdateId = function(updates) {
      return updates.reduce(function(max, update) {
          return update.update_id > max ? update.update_id : max;
      }, 0);
  };
  \<close>
  \<open>updates\<close> is an array, given by the list of its elements.
\<close>

fun reduce :: "('b \<Rightarrow> 'a \<Rightarrow> error + 'b) \<Rightarrow> 'b \<Rightarrow> 'a list \<Rightarrow> error + 'b" where
  "reduce f acc [] = Inr acc"
| "reduce f acc (x # xs) =
     (case f acc x of Inl e \<Rightarrow> Inl e | Inr acc' \<Rightarrow> reduce f acc' xs)"

definition highestStep :: "env \<Rightarrow> jsval \<Rightarrow> jsval \<Rightarrow> error + jsval" where
  "highestStep env max' update =
     (case member update (str ''update_id'') of
        Inl e \<Rightarrow> Inl e
      | Inr update_id \<Rightarrow>
          (case js_less env max' update_id of
             Inl e \<Rightarrow> Inl e
           | Inr larger \<Rightarrow> Inr (if larger then update_id else max')))"

definition getHighestUpdateId :: "env \<Rightarrow> jsval list \<Rightarrow> error + jsval" where
  "getHighestUpdateId env updates = reduce (highestStep env) (JNum (Fin 0)) updates"

section \<open>Observing a call\<close>

text \<open>The requests a call has added to the world \<open>w\<close> it started in.\<close>

definition sentBy :: "world \<Rightarrow> 'a result \<Rightarrow> httpRequest list" where
  "sentBy w r = drop (length (sent w)) (sent (snd r))"

text \<open>
  The request a multipart dispatch of a payload sends: none when a part cannot be built.
\<close>

definition multipartRequests ::
  "env \<Rightarrow> TelegramBot \<Rightarrow> string \<Rightarrow> jsval \<Rightarrow> httpRequest list" where
  "multipartRequests env self path payload =
     (case multipartPayload env payload of
        Inl e \<Rightarrow> []
      | Inr parts \<Rightarrow> [multipartRequest self path parts])"

text \<open>
  The streams of the upload descriptors among the values of a payload, in the order the
  \<open>for ... in\<close> loop meets them.
\<close>

fun uploadOf :: "jsval \<Rightarrow> stream list" where
  "uploadOf (JMultipartStream n s) = [s]"
| "uploadOf _ = []"

definition uploadStreamsIn :: "jsval \<Rightarrow> jsstring list \<Rightarrow> stream list" where
  "uploadStreamsIn payload names = concat (map (\<lambda>name. uploadOf (getProp payload name)) names)"

definition uploadStreams :: "jsval \<Rightarrow> stream list" where
  "uploadStreams payload = uploadStreamsIn payload (forInKeys payload)"

section \<open>Example environments\<close>

text \<open>
  \<open>quietEnv\<close> has no network and parses nothing, its \<open>objects.merge\<close> is the model
  \<open>ringoMerge\<close>, and no object has a primitive value in it; \<open>serverEnv ex resp\<close>
  answers every request with the exchange \<open>ex\<close>, whose content \<open>JSON.parse\<close> turns into
  \<open>resp\<close>.
\<close>

definition quietEnv :: env where
  "quietEnv =
     \<lparr>request = (\<lambda>r. Raises (str ''offline'')),
      JSON_parse = (\<lambda>s. None),
      objects_merge = ringoMerge,
      toPrimitiveObject = (\<lambda>h v. None),
      stringToNumber = (\<lambda>s. NaN),
      globalScope = (\<lambda>x. None)\<rparr>"

definition serverEnv :: "exchange \<Rightarrow> jsval \<Rightarrow> env" where
  "serverEnv ex resp =
     quietEnv\<lparr>request := (\<lambda>r. Returns ex),
              JSON_parse := (\<lambda>s. if s = content ex then Some resp else None)\<rparr>"

definition okEnvelope :: jsval where
  "okEnvelope =
     JObj [(str ''ok'', JBool True), (str ''result'', JObj [(str ''id'', JNum (Fin 1))])]"

definition okExchange :: exchange where
  \<open>okExchange = \<lparr>status = 200, content = str ''{"ok":true,"result":{"id":1}}''\<rparr>\<close>

definition badRequestEnvelope :: jsval where
  "badRequestEnvelope =
     JObj [(str ''ok'', JBool False), (str ''error_code'', JNum (Fin 400)),
           (str ''description'', JStr (str ''Bad Request''))]"

definition badRequestExchange :: exchange where
  \<open>badRequestExchange =
     \<lparr>status = 200,
      content = str ''{"ok":false,"error_code":400,"description":"Bad Request"}''\<rparr>\<close>

definition notFoundExchange :: exchange where
  "notFoundExchange = \<lparr>status = 404, content = str ''Not Found''\<rparr>"

definition exampleBot :: TelegramBot where
  "exampleBot = newTelegramBot (str ''123:abc'')"

text \<open>A world in which the caller has opened one stream, with handle 0.\<close>

definition exampleWorld :: world where
  "exampleWorld = \<lparr>sent = [], closed = {}, nextHandle = 1\<rparr>"

text \<open>
  Two upload descriptors: \<open>callerPhoto\<close> wraps the stream 0 the caller has opened,
  \<open>pathPhoto\<close> the stream 1 that the constructor opens from a path in \<open>exampleWorld\<close>.
\<close>

definition callerPhoto :: jsval where
  "callerPhoto = JMultipartStream (JStr (str ''test.jpg'')) (Stream 0 False)"

definition pathPhoto :: jsval where
  "pathPhoto = JMultipartStream (JStr (str ''test.jpg'')) (Stream 1 False)"

definition pathWorld :: world where
  "pathWorld = \<lparr>sent = [], closed = {}, nextHandle = 2\<rparr>"

definition exampleSticker :: jsval where
  "exampleSticker = JStr (str ''CAADAgADQAADyIsGAAE7MpzFPFQX5QI'')"

definition longString :: "nat \<Rightarrow> jsstring" where
  "longString n = replicate n (of_char CHR ''x'')"

section \<open>Properties of the envelope decoder\<close>

lemma str_simps:
  "str [] = []"
  "str (c # cs) = of_char c # str cs"
  by (simp_all add: str_def)

lemma member_object [simp]: "member (JObj ps) k = Inr (getProp (JObj ps) k)"
  by (simp add: member_def)

text \<open>
  With status 200 and a body that parses to a value other than \<open>null\<close>, the decoder
  returns the \<open>result\<close> member when \<open>ok\<close> is \<open>true\<close>. In every other case the API error
  it throws is thrown inside the \<open>try\<close> block, so that the \<open>catch\<close> receives it and
  throws the parse error in its place.
\<close>

lemma processExchange_ok:
  assumes "status ex = 200" and "JSON_parse env (content ex) = Some resp"
    and "\<not> looseNull resp" and "getProp resp (str ''ok'') = JBool True"
  shows "processExchange env ex = Inr (getProp resp (str ''result''))"
  using assms by (simp add: processExchange_def decodeBody_def member_def)

lemma processExchange_not_ok:
  assumes "status ex = 200" and "JSON_parse env (content ex) = Some resp"
    and "\<not> looseNull resp" and "getProp resp (str ''ok'') \<noteq> JBool True"
    and "toPrimitive env HintDefault (getProp resp (str ''error_code'')) \<noteq> None"
    and "toPrimitive env HintDefault (getProp resp (str ''description'')) \<noteq> None"
  shows "processExchange env ex =
    Inl (CouldNotParse (ApiError (getProp resp (str ''error_code''))
                                 (getProp resp (str ''description''))))"
  using assms by (simp add: processExchange_def decodeBody_def member_def)

text \<open>
  C1. The decoder at the two envelopes of the specification: \<open>{ok:true, result:{id:1}}\<close>
  yields \<open>{id:1}\<close>; \<open>{ok:false, error_code:400, description:"Bad Request"}\<close> fails with
  the error of the \<open>catch\<close> block (could not parse the response), which wraps the API error
  with code 400 and description "Bad Request".
\<close>

theorem processExchange_envelopes:
  "processExchange (serverEnv okExchange okEnvelope) okExchange
     = Inr (JObj [(str ''id'', JNum (Fin 1))])
   \<and> processExchange (serverEnv badRequestExchange badRequestEnvelope) badRequestExchange
     = Inl (CouldNotParse (ApiError (JNum (Fin 400)) (JStr (str ''Bad Request''))))"
  by (simp add: processExchange_def decodeBody_def toPrimitive_def serverEnv_def quietEnv_def
      str_simps okExchange_def okEnvelope_def badRequestExchange_def badRequestEnvelope_def)

text \<open>
  C5. An exchange whose status is not 200 fails with the status error, which carries the
  status and the raw content. The result is the same whatever \<open>JSON.parse\<close> is: the
  decoder does not reach it.
\<close>

theorem processExchange_status_not_200:
  "status ex \<noteq> 200 \<Longrightarrow>
     processExchange env ex = Inl (StatusError (status ex) (content ex))
     \<and> (\<forall>p. processExchange (env\<lparr>JSON_parse := p\<rparr>) ex = processExchange env ex)"
  by (simp add: processExchange_def)

theorem processExchange_status_not_200_witness:
  "status notFoundExchange \<noteq> 200
   \<and> processExchange quietEnv notFoundExchange = Inl (StatusError 404 (str ''Not Found''))"
  using processExchange_status_not_200 [of notFoundExchange quietEnv]
  by (simp add: notFoundExchange_def)

section \<open>Properties of the dispatch helpers\<close>

lemma exchangeOf_world: "snd (exchangeOf env req w) = w\<lparr>sent := sent w @ [req]\<rparr>"
  by (simp add: exchangeOf_def)

lemma exchangeOf_outcome:
  "fst (exchangeOf env req w)
     = (case request env req of
          Raises e \<Rightarrow> Inl (RequestFailed e)
        | Returns ex \<Rightarrow> processExchange env ex)"
  by (simp add: exchangeOf_def)

lemma processExchange_not_insufficient:
  "processExchange env ex \<noteq> Inl (InsufficientParameters p)"
  by (simp add: processExchange_def split: sum.splits)

lemma exchangeOf_not_insufficient:
  "fst (exchangeOf env req w) \<noteq> Inl (InsufficientParameters p)"
  by (simp add: exchangeOf_def processExchange_not_insufficient split: reply.splits)

text \<open>The guard of both helpers never fires: \<open>!payload\<close> is a boolean, not an object.\<close>

lemma bot_request_exchangeOf:
  "bot_request env self path payload w = exchangeOf env (jsonRequest self path payload) w"
  by (simp add: bot_request_def)

text \<open>
  A multipart dispatch has two courses. When a part cannot be built, the conversion throws
  before the \<open>try\<close>: nothing is sent and the \<open>finally\<close> block does not run. When the
  parts are built, the request is sent and the \<open>finally\<close> block closes the streams.
\<close>

lemma bot_requestMultipart_unbuilt:
  "multipartPayload env payload = Inl e \<Longrightarrow>
   bot_requestMultipart env self path payload w = (Inl e, w)"
  by (simp add: bot_requestMultipart_def throw_def)

lemma bot_requestMultipart_built:
  "multipartPayload env payload = Inr parts \<Longrightarrow>
   bot_requestMultipart env self path payload w =
     (fst (exchangeOf env (multipartRequest self path parts) w),
      closeStreams payload (snd (exchangeOf env (multipartRequest self path parts) w)))"
  by (simp add: bot_requestMultipart_def split: prod.splits)

lemma partOf_error: "partOf env v = Inl e \<Longrightarrow> e = TypeError"
  by (auto simp: partOf_def js_String_def split: jsval.splits option.splits if_splits)

lemma buildParts_error: "buildParts env payload mp names = Inl e \<Longrightarrow> e = TypeError"
  by (induction names arbitrary: mp) (auto split: sum.splits dest: partOf_error)

lemma multipartPayload_error: "multipartPayload env payload = Inl e \<Longrightarrow> e = TypeError"
  by (auto simp: multipartPayload_def dest: buildParts_error)

lemma closeStep_sent: "sent (closeStep payload w name) = sent w"
  by (simp add: closeStep_def split: jsval.splits)

lemma foldl_closeStep_sent: "sent (foldl (closeStep payload) w names) = sent w"
  by (induction names arbitrary: w) (simp_all add: closeStep_sent)

lemma closeStreams_sent: "sent (closeStreams payload w) = sent w"
  by (simp add: closeStreams_def foldl_closeStep_sent)

lemma closeStep_closed:
  "closed (closeStep payload w name) = closed w \<union> handle ` set (uploadOf (getProp payload name))"
  by (cases "getProp payload name") (auto simp: closeStep_def)

lemma foldl_closeStep_closed:
  "closed (foldl (closeStep payload) w names)
     = closed w \<union> handle ` set (uploadStreamsIn payload names)"
proof (induction names arbitrary: w)
  case Nil
  show ?case by (simp add: uploadStreamsIn_def)
next
  case (Cons name names)
  have "uploadStreamsIn payload (name # names)
          = uploadOf (getProp payload name) @ uploadStreamsIn payload names"
    by (simp add: uploadStreamsIn_def)
  then show ?case
    by (simp add: Cons.IH closeStep_closed image_Un Un_assoc)
qed

lemma sentBy_throw: "sentBy w (throw e w) = []"
  by (simp add: sentBy_def throw_def)

lemma fst_throw: "fst (throw e w) = Inl e"
  by (simp add: throw_def)

lemma sentBy_bot_request:
  "sentBy w (bot_request env self path payload w) = [jsonRequest self path payload]"
  by (simp add: sentBy_def bot_request_exchangeOf exchangeOf_world)

lemma sentBy_bot_requestMultipart:
  "sentBy w (bot_requestMultipart env self path payload w)
     = multipartRequests env self path payload"
proof (cases "multipartPayload env payload")
  case (Inl e)
  then show ?thesis
    by (simp add: bot_requestMultipart_unbuilt multipartRequests_def sentBy_def)
next
  case (Inr parts)
  then show ?thesis
    by (simp add: bot_requestMultipart_built multipartRequests_def sentBy_def exchangeOf_world
        closeStreams_sent)
qed

lemma fst_bot_request_not_insufficient:
  "fst (bot_request env self path payload w) \<noteq> Inl (InsufficientParameters p)"
  by (simp add: bot_request_exchangeOf exchangeOf_not_insufficient)

subsection \<open>Streams of a multipart dispatch\<close>

text \<open>
  What the constructor of an upload descriptor does with its source: a stream is kept as
  it is and nothing is opened; a path is opened, and the new stream is open.
\<close>

lemma newMultipartStream_stream:
  "\<not> looseNull name \<Longrightarrow>
   newMultipartStream name (JStream s) w = (Inr (JMultipartStream name s), w)"
  by (simp add: newMultipartStream_def)

lemma newMultipartStream_path:
  "\<not> looseNull name \<Longrightarrow>
   newMultipartStream name (JPath p) w =
     (Inr (JMultipartStream name (Stream (nextHandle w) False)),
      w\<lparr>closed := closed w - {nextHandle w}, nextHandle := Suc (nextHandle w)\<rparr>)"
  by (simp add: newMultipartStream_def openRaw_def)

text \<open>
  C3, as the code has it. Take a multipart dispatch whose parts can be built: every
  value of the payload is an upload descriptor or converts to a string. Whatever the HTTP
  client then answers (an exchange of any status and content, or an exception), the
  dispatch sends one request and ends with the outcome of the decoder or the exception;
  the streams that are closed when it returns or throws are those closed before and the
  stream of every upload descriptor in the payload. A descriptor does not record where
  its stream came from, so that the stream the constructor opened from a path and the
  stream the caller supplied are closed alike.
\<close>

theorem multipart_closes_payload_streams:
  assumes "multipartPayload env payload = Inr parts"
  shows "closed (snd (bot_requestMultipart env self path payload w))
           = closed w \<union> handle ` set (uploadStreams payload)
         \<and> sentBy w (bot_requestMultipart env self path payload w)
           = [multipartRequest self path parts]
         \<and> fst (bot_requestMultipart env self path payload w)
           = (case request env (multipartRequest self path parts) of
                Raises e \<Rightarrow> Inl (RequestFailed e)
              | Returns ex \<Rightarrow> processExchange env ex)"
proof (intro conjI)
  show "closed (snd (bot_requestMultipart env self path payload w))
          = closed w \<union> handle ` set (uploadStreams payload)"
    by (simp add: bot_requestMultipart_built [OF assms] exchangeOf_world closeStreams_def
        foldl_closeStep_closed uploadStreams_def)
  show "sentBy w (bot_requestMultipart env self path payload w)
          = [multipartRequest self path parts]"
    by (simp add: sentBy_bot_requestMultipart multipartRequests_def assms)
  show "fst (bot_requestMultipart env self path payload w)
          = (case request env (multipartRequest self path parts) of
               Raises e \<Rightarrow> Inl (RequestFailed e)
             | Returns ex \<Rightarrow> processExchange env ex)"
    by (simp add: bot_requestMultipart_built [OF assms] exchangeOf_outcome)
qed

lemma photo_payload_streams:
  "uploadStreams (JObj [(str ''chat_id'', JNum (Fin 42)), (str ''photo'', JMultipartStream n s)])
     = [s]"
  by (simp add: uploadStreams_def uploadStreamsIn_def str_simps)

lemma photo_payload_parts:
  "multipartPayload env
     (JObj [(str ''chat_id'', JNum (Fin 42)), (str ''photo'', JMultipartStream n (Stream h False))])
     = Inr [(str ''chat_id'', TextPart (StringOf (JNum (Fin 42))) ''utf-8'' None),
            (str ''photo'', BinaryPart (Stream h False) n)]"
  by (simp add: multipartPayload_def partOf_def js_String_def toPrimitive_def str_simps)

text \<open>
  The descriptor built from a path in \<open>exampleWorld\<close> holds stream 1; after the dispatch
  the stream is closed when the server accepts the photo, when it answers with an error
  envelope, when it answers with status 404 and when the HTTP client throws.
\<close>

theorem multipart_closes_payload_streams_witness:
  "newMultipartStream (JStr (str ''test.jpg'')) (JPath (str ''fixtures/test.jpg'')) exampleWorld
     = (Inr pathPhoto, pathWorld)
   \<and> closed pathWorld = {}
   \<and> closed (snd (bot_requestMultipart (serverEnv okExchange okEnvelope) exampleBot ''/sendPhoto''
        (JObj [(str ''chat_id'', JNum (Fin 42)), (str ''photo'', pathPhoto)]) pathWorld)) = {1}
   \<and> closed (snd (bot_requestMultipart (serverEnv badRequestExchange badRequestEnvelope)
        exampleBot ''/sendPhoto''
        (JObj [(str ''chat_id'', JNum (Fin 42)), (str ''photo'', pathPhoto)]) pathWorld)) = {1}
   \<and> closed (snd (bot_requestMultipart (serverEnv notFoundExchange JNull) exampleBot ''/sendPhoto''
        (JObj [(str ''chat_id'', JNum (Fin 42)), (str ''photo'', pathPhoto)]) pathWorld)) = {1}
   \<and> closed (snd (bot_requestMultipart quietEnv exampleBot ''/sendPhoto''
        (JObj [(str ''chat_id'', JNum (Fin 42)), (str ''photo'', pathPhoto)]) pathWorld)) = {1}
   \<and> fst (bot_requestMultipart quietEnv exampleBot ''/sendPhoto''
        (JObj [(str ''chat_id'', JNum (Fin 42)), (str ''photo'', pathPhoto)]) pathWorld)
     = Inl (RequestFailed (str ''offline''))"
proof -
  have built:
    "newMultipartStream (JStr (str ''test.jpg'')) (JPath (str ''fixtures/test.jpg'')) exampleWorld
       = (Inr pathPhoto, pathWorld)"
    by (simp add: newMultipartStream_path exampleWorld_def pathPhoto_def pathWorld_def)
  have before: "closed pathWorld = {}"
    by (simp add: pathWorld_def)
  have streams:
    "handle ` set (uploadStreams
        (JObj [(str ''chat_id'', JNum (Fin 42)), (str ''photo'', pathPhoto)])) = {1}"
    by (simp add: pathPhoto_def photo_payload_streams)
  have parts:
    "multipartPayload env (JObj [(str ''chat_id'', JNum (Fin 42)), (str ''photo'', pathPhoto)])
       = Inr [(str ''chat_id'', TextPart (StringOf (JNum (Fin 42))) ''utf-8'' None),
              (str ''photo'', BinaryPart (Stream 1 False) (JStr (str ''test.jpg'')))]" for env
    by (simp add: pathPhoto_def photo_payload_parts)
  have offline: "request quietEnv r = Raises (str ''offline'')" for r
    by (simp add: quietEnv_def)
  show ?thesis
    using built before
      multipart_closes_payload_streams [OF parts, of "serverEnv okExchange okEnvelope"
        exampleBot "''/sendPhoto''" pathWorld]
      multipart_closes_payload_streams [OF parts,
        of "serverEnv badRequestExchange badRequestEnvelope" exampleBot "''/sendPhoto''"
        pathWorld]
      multipart_closes_payload_streams [OF parts, of "serverEnv notFoundExchange JNull"
        exampleBot "''/sendPhoto''" pathWorld]
      multipart_closes_payload_streams [OF parts, of quietEnv exampleBot "''/sendPhoto''"
        pathWorld]
    by (simp add: streams offline)
qed

text \<open>
  The claim as the specification states it fails: stream 0 is a stream the caller opened
  and passed to the constructor, which opens nothing; it is open before \<open>setChatPhoto\<close>
  and closed after it.
\<close>

theorem caller_stream_closed_counterexample:
  "newMultipartStream (JStr (str ''test.jpg'')) (JStream (Stream 0 False)) exampleWorld
     = (Inr callerPhoto, exampleWorld)
   \<and> 0 \<notin> closed exampleWorld
   \<and> 0 \<in> closed (snd (setChatPhoto (serverEnv okExchange okEnvelope) exampleBot
              (JNum (Fin 42)) callerPhoto exampleWorld))"
  by (simp add: newMultipartStream_stream callerPhoto_def exampleWorld_def setChatPhoto_def
      bot_requestMultipart_def multipartPayload_def partOf_def js_String_def toPrimitive_def
      exchangeOf_def closeStreams_def closeStep_def str_simps)

section \<open>Validation of the arguments\<close>

subsection \<open>Required parameters\<close>

text \<open>
  Every operation that checks its parameters with \<open>== null\<close> rejects an absent one
  with its validation error and leaves the world as it was: no request is sent. The two
  sticker set operations compare the lengths of \<open>name\<close> and \<open>title\<close> between the checks;
  for them the later parameters are taken with a name and a title that are strings.
\<close>

lemma js_less_numbers [simp]:
  "js_less env (JNum a) (JNum b) = Inr (num_less a b)"
  by (simp add: js_less_def toPrimitive_def less_primitive_def)

lemma js_any_Cons [simp]:
  "js_any (Inr b # ds) = (if b then Inr True else js_any ds)"
  by (cases b) simp_all

lemma required_parameters_validated:
  "(looseNull chatId \<or> looseNull text \<longrightarrow>
      sendMessage env self chatId text options w
        = (Inl (InsufficientParameters ''/sendMessage''), w))
   \<and> (looseNull inlineQueryId \<or> looseNull results \<longrightarrow>
      answerInlineQuery env self inlineQueryId results options w
        = (Inl (InsufficientParameters ''/answerInlineQuery''), w))
   \<and> (looseNull chatId \<or> looseNull fromChatId \<or> looseNull messageId \<longrightarrow>
      forwardMessage env self chatId fromChatId messageId options w
        = (Inl (InsufficientParameters ''/forwardMessage''), w))
   \<and> (looseNull chatId \<or> looseNull photo \<longrightarrow>
      sendPhoto env self chatId photo options w
        = (Inl (InsufficientParameters ''/sendPhoto''), w))
   \<and> (looseNull chatId \<or> looseNull audio \<longrightarrow>
      sendAudio env self chatId audio options w
        = (Inl (InsufficientParameters ''/sendAudio''), w))
   \<and> (looseNull chatId \<or> looseNull document \<longrightarrow>
      sendDocument env self chatId document options w
        = (Inl (InsufficientParameters ''/sendDocument''), w))
   \<and> (looseNull chatId \<or> looseNull sticker \<longrightarrow>
      sendSticker env self chatId sticker options w
        = (Inl (InsufficientParameters ''/sendSticker''), w))
   \<and> (looseNull chatId \<or> looseNull video \<longrightarrow>
      sendVideo env self chatId video options w
        = (Inl (InsufficientParameters ''/sendVideo''), w))
   \<and> (looseNull chatId \<or> looseNull videoNote \<longrightarrow>
      sendVideoNote env self chatId videoNote options w
        = (Inl (InsufficientParameters ''/sendVideoNote''), w))
   \<and> (looseNull chatId \<or> looseNull voice \<longrightarrow>
      sendVoice env self chatId voice options w
        = (Inl (InsufficientParameters ''/sendVoice''), w))
   \<and> (looseNull chatId \<or> looseNull latitude \<or> looseNull longitude \<longrightarrow>
      sendLocation env self chatId latitude longitude options w
        = (Inl (InsufficientParameters ''/sendLocation''), w))
   \<and> (looseNull chatId \<or> looseNull latitude \<or> looseNull longitude \<or> looseNull title \<or> looseNull address \<longrightarrow>
      sendVenue env self chatId latitude longitude title address options w
        = (Inl (InsufficientParameters ''/sendVenue''), w))
   \<and> (looseNull chatId \<or> looseNull phoneNumber \<or> looseNull firstName \<longrightarrow>
      sendContact env self chatId phoneNumber firstName options w
        = (Inl (InsufficientParameters ''/sendContact''), w))
   \<and> (looseNull chatId \<or> looseNull action \<longrightarrow>
      sendChatAction env self chatId action w
        = (Inl (InsufficientParameters ''/sendChatAction''), w))
   \<and> (looseNull userId \<longrightarrow>
      getUserProfilePhotos env self userId options w
        = (Inl (InsufficientParameters ''/getUserProfilePhotos''), w))
   \<and> (looseNull chatId \<or> looseNull userId \<longrightarrow>
      kickChatMember env self chatId userId w
        = (Inl (InsufficientParameters ''/kickChatMember''), w))
   \<and> (looseNull chatId \<longrightarrow>
      leaveChat env self chatId w
        = (Inl (InsufficientParameters ''/leaveChat''), w))
   \<and> (looseNull chatId \<or> looseNull userId \<longrightarrow>
      unbanChatMember env self chatId userId w
        = (Inl (InsufficientParameters ''/unbanChatMember''), w))
   \<and> (looseNull chatId \<longrightarrow>
      getChat env self chatId w
        = (Inl (InsufficientParameters ''/getChat''), w))
   \<and> (looseNull chatId \<longrightarrow>
      getChatAdministrators env self chatId w
        = (Inl (InsufficientParameters ''/getChatAdministrators''), w))
   \<and> (looseNull chatId \<longrightarrow>
      getChatMembersCount env self chatId w
        = (Inl (InsufficientParameters ''/getChatMembersCount''), w))
   \<and> (looseNull chatId \<or> looseNull userId \<longrightarrow>
      getChatMember env self chatId userId w
        = (Inl (InsufficientParameters ''/getChatMember''), w))
   \<and> (looseNull callbackQueryId \<longrightarrow>
      answerCallbackQuery env self callbackQueryId options w
        = (Inl (InsufficientParameters ''/answerCallbackQuery''), w))
   \<and> (looseNull text \<or> looseNull options \<longrightarrow>
      editMessageText env self text options w
        = (Inl (InsufficientParameters ''/editMessageText''), w))
   \<and> (looseNull options \<longrightarrow>
      editMessageReplyMarkup env self options w
        = (Inl (InsufficientParameters ''/editMessageReplyMarkup''), w))
   \<and> (looseNull chatId \<or> looseNull messageId \<longrightarrow>
      deleteMessage env self chatId messageId w
        = (Inl (InsufficientParameters ''/deleteMessage''), w))
   \<and> (looseNull chatId \<or> looseNull userId \<longrightarrow>
      restrictChatMember env self chatId userId options w
        = (Inl (InsufficientParameters ''/restrictChatMember''), w))
   \<and> (looseNull chatId \<or> looseNull userId \<longrightarrow>
      promoteChatMember env self chatId userId options w
        = (Inl (InsufficientParameters ''/promoteChatMember''), w))
   \<and> (looseNull chatId \<longrightarrow>
      exportChatInviteLink env self chatId w
        = (Inl (InsufficientParameters ''/exportChatInviteLink''), w))
   \<and> (looseNull chatId \<or> looseNull photo \<longrightarrow>
      setChatPhoto env self chatId photo w
        = (Inl (InsufficientParameters ''/setChatPhoto''), w))
   \<and> (looseNull chatId \<longrightarrow>
      deleteChatPhoto env self chatId w
        = (Inl (InsufficientParameters ''/deleteChatPhoto''), w))
   \<and> (looseNull chatId \<or> looseNull title \<longrightarrow>
      setChatTitle env self chatId title w
        = (Inl (InsufficientParameters ''/setChatTitle''), w))
   \<and> (looseNull chatId \<or> looseNull description \<longrightarrow>
      setChatDescription env self chatId description w
        = (Inl (InsufficientParameters ''/setChatDescription''), w))
   \<and> (looseNull chatId \<or> looseNull messageId \<longrightarrow>
      pinChatMessage env self chatId messageId options w
        = (Inl (InsufficientParameters ''/pinChatMessage''), w))
   \<and> (looseNull chatId \<longrightarrow>
      unpinChatMessage env self chatId w
        = (Inl (InsufficientParameters ''/unpinChatMessage''), w))
   \<and> (looseNull name \<longrightarrow>
      getStickerSet env self name w
        = (Inl (InsufficientParameters ''/getStickerSet''), w))
   \<and> (looseNull userId \<or> looseNull pngSticker \<longrightarrow>
      uploadStickerFile env self userId pngSticker w
        = (Inl (InsufficientParameters ''/uploadStickerFile''), w))
   \<and> (looseNull userId \<or> looseNull name \<longrightarrow>
      createNewStickerSet env self userId name title pngSticker emojis options w
        = (Inl (InsufficientParameters ''/createNewStickerSet''), w))
   \<and> (looseNull pngSticker \<or> looseNull emojis \<longrightarrow>
      createNewStickerSet env self userId (JStr n) (JStr t) pngSticker emojis options w
        = (Inl (InsufficientParameters ''/createNewStickerSet''), w))
   \<and> (looseNull title \<longrightarrow>
      createNewStickerSet env self userId (JStr n) title pngSticker emojis options w
        = (Inl (InsufficientParameters ''/createNewStickerSet''), w))
   \<and> (looseNull userId \<or> looseNull name \<longrightarrow>
      addStickerToSet env self userId name title pngSticker emojis options w
        = (Inl (InsufficientParameters ''/addStickerToSet''), w))
   \<and> (looseNull pngSticker \<or> looseNull emojis \<longrightarrow>
      addStickerToSet env self userId (JStr n) (JStr t) pngSticker emojis options w
        = (Inl (InsufficientParameters ''/addStickerToSet''), w))
   \<and> (looseNull title \<longrightarrow>
      addStickerToSet env self userId (JStr n) title pngSticker emojis options w
        = (Inl (InsufficientParameters ''/addStickerToSet''), w))
   \<and> (looseNull sticker \<longrightarrow>
      setStickerPositionInSet env self sticker position w
        = (Inl (InsufficientParameters ''/setStickerPositionInSet''), w))
   \<and> (looseNull sticker \<longrightarrow>
      deleteStickerFromSet env self sticker w
        = (Inl (InsufficientParameters ''/deleteStickerFromSet''), w))"
  by (simp_all add: throw_def
      sendMessage_def answerInlineQuery_def forwardMessage_def sendPhoto_def sendAudio_def sendDocument_def
      sendSticker_def sendVideo_def sendVideoNote_def sendVoice_def sendLocation_def sendVenue_def
      sendContact_def sendChatAction_def getUserProfilePhotos_def kickChatMember_def leaveChat_def unbanChatMember_def
      getChat_def getChatAdministrators_def getChatMembersCount_def getChatMember_def answerCallbackQuery_def editMessageText_def
      editMessageReplyMarkup_def deleteMessage_def restrictChatMember_def promoteChatMember_def exportChatInviteLink_def setChatPhoto_def
      deleteChatPhoto_def setChatTitle_def setChatDescription_def pinChatMessage_def unpinChatMessage_def getStickerSet_def
      uploadStickerFile_def createNewStickerSet_def addStickerToSet_def setStickerPositionInSet_def deleteStickerFromSet_def)

text \<open>
  C2. \<open>getFile\<close> does not check \<open>fileId\<close>: its guard reads the identifier \<open>getFile\<close>.
  Where no such global exists the call throws a \<open>ReferenceError\<close>, with \<open>fileId\<close>
  absent or not; where one exists and is not \<open>null\<close>, an absent \<open>fileId\<close> is sent to
  the server as \<open>{file_id: null}\<close>. In neither case does an absent \<open>fileId\<close> raise the
  validation error. \<open>setWebhook\<close> checks nothing: an absent \<open>url\<close> is sent as well.
\<close>

theorem getFile_absent_fileId:
  "getFile quietEnv self JNull w = (Inl (ReferenceError ''getFile''), w)
   \<and> getFile quietEnv self (JStr (str ''AgADBAAD'')) w = (Inl (ReferenceError ''getFile''), w)
   \<and> sentBy w (getFile (quietEnv\<lparr>globalScope := (\<lambda>x. Some (JObj []))\<rparr>) self JNull w)
     = [\<lparr>reqUrl = baseURI self @ str ''/getFile'',
         reqMethod = ''POST'',
         reqData = JSON_stringify (JObj [(str ''file_id'', JNull)]),
         reqHeaders = [(''Cache-Control'', ''no-cache, no-store''),
                       (''Content-Type'', ''application/json; charset=utf-8'')]\<rparr>]
   \<and> sentBy w (setWebhook quietEnv self JNull JNull w)
     = [multipartRequest self ''/setWebhook''
          [(str ''url'', TextPart (StringOf JNull) ''utf-8'' None),
           (str ''cert'', TextPart (StringOf JNull) ''utf-8'' None)]]"
  by (simp add: getFile_def setWebhook_def throw_def quietEnv_def sentBy_bot_request
      sentBy_bot_requestMultipart jsonRequest_def multipartRequests_def multipartPayload_def
      partOf_def js_String_def toPrimitive_def str_simps)

subsection \<open>Bounded strings\<close>

lemma length_exceeds:
  "js_less env (JNum (Fin (of_nat n))) (getProp (JStr s) (str ''length'')) = Inr (n < length s)"
  by simp

text \<open>
  C6. A string longer than 255 code units as the title of \<open>setChatTitle\<close> or the
  description of \<open>setChatDescription\<close>, and a string longer than 64 code units as the
  name or the title of \<open>createNewStickerSet\<close> or \<open>addStickerToSet\<close>, is rejected with
  the validation error, whatever the other arguments are; the world is unchanged, so no
  request is sent. The title is compared after the name: for the title, the length of the
  name is taken to have a primitive value, as the length of every string has.
\<close>

theorem string_bounds_validated:
  "(255 < length s \<longrightarrow>
      setChatTitle env self chatId (JStr s) w
        = (Inl (InsufficientParameters ''/setChatTitle''), w)
      \<and> setChatDescription env self chatId (JStr s) w
        = (Inl (InsufficientParameters ''/setChatDescription''), w))
   \<and> (64 < length s \<longrightarrow>
      createNewStickerSet env self userId (JStr s) title pngSticker emojis options w
        = (Inl (InsufficientParameters ''/createNewStickerSet''), w)
      \<and> addStickerToSet env self userId (JStr s) title pngSticker emojis options w
        = (Inl (InsufficientParameters ''/addStickerToSet''), w)
      \<and> (toPrimitive env HintNumber (getProp name (str ''length'')) \<noteq> None \<longrightarrow>
           createNewStickerSet env self userId name (JStr s) pngSticker emojis options w
             = (Inl (InsufficientParameters ''/createNewStickerSet''), w)
           \<and> addStickerToSet env self userId name (JStr s) pngSticker emojis options w
             = (Inl (InsufficientParameters ''/addStickerToSet''), w)))"
proof -
  have a: "js_less env (JNum (Fin 255)) (getProp (JStr s) (str ''length'')) = Inr (255 < length s)"
    using length_exceeds [of env 255 s] by simp
  have b: "js_less env (JNum (Fin 64)) (getProp (JStr s) (str ''length'')) = Inr (64 < length s)"
    using length_exceeds [of env 64 s] by simp
  have c: "\<exists>r. js_less env (JNum (Fin 64)) (getProp name (str ''length'')) = Inr r"
    if "toPrimitive env HintNumber (getProp name (str ''length'')) \<noteq> None"
    using that by (auto simp: js_less_def toPrimitive_def)
  show ?thesis
  proof (intro conjI impI)
    assume "255 < length s"
    then show "setChatTitle env self chatId (JStr s) w
        = (Inl (InsufficientParameters ''/setChatTitle''), w)"
      and "setChatDescription env self chatId (JStr s) w
        = (Inl (InsufficientParameters ''/setChatDescription''), w)"
      by (simp_all add: a setChatTitle_def setChatDescription_def throw_def del: getProp.simps)
  next
    assume "64 < length s"
    then show "createNewStickerSet env self userId (JStr s) title pngSticker emojis options w
        = (Inl (InsufficientParameters ''/createNewStickerSet''), w)"
      and "addStickerToSet env self userId (JStr s) title pngSticker emojis options w
        = (Inl (InsufficientParameters ''/addStickerToSet''), w)"
      by (simp_all add: b createNewStickerSet_def addStickerToSet_def throw_def
          del: getProp.simps)
  next
    assume long: "64 < length s"
      and "toPrimitive env HintNumber (getProp name (str ''length'')) \<noteq> None"
    then obtain r where r: "js_less env (JNum (Fin 64)) (getProp name (str ''length'')) = Inr r"
      using c by blast
    from long show "createNewStickerSet env self userId name (JStr s) pngSticker emojis options w
        = (Inl (InsufficientParameters ''/createNewStickerSet''), w)"
      by (simp add: b r createNewStickerSet_def throw_def del: getProp.simps)
    from long show "addStickerToSet env self userId name (JStr s) pngSticker emojis options w
        = (Inl (InsufficientParameters ''/addStickerToSet''), w)"
      by (simp add: b r addStickerToSet_def throw_def del: getProp.simps)
  qed
qed

theorem string_bounds_validated_witness:
  "255 < length (longString 256)
   \<and> setChatTitle quietEnv exampleBot (JNum (Fin 42)) (JStr (longString 256)) exampleWorld
       = (Inl (InsufficientParameters ''/setChatTitle''), exampleWorld)
   \<and> setChatDescription quietEnv exampleBot (JNum (Fin 42)) (JStr (longString 256)) exampleWorld
       = (Inl (InsufficientParameters ''/setChatDescription''), exampleWorld)
   \<and> 64 < length (longString 65)
   \<and> createNewStickerSet quietEnv exampleBot (JNum (Fin 7)) (JStr (longString 65))
         (JStr (str ''Title'')) (JStr (str ''file-id'')) (JStr (str '':-)'')) JUndefined exampleWorld
       = (Inl (InsufficientParameters ''/createNewStickerSet''), exampleWorld)
   \<and> addStickerToSet quietEnv exampleBot (JNum (Fin 7)) (JStr (str ''name''))
         (JStr (longString 65)) (JStr (str ''file-id'')) (JStr (str '':-)'')) JUndefined exampleWorld
       = (Inl (InsufficientParameters ''/addStickerToSet''), exampleWorld)"
proof -
  have name: "toPrimitive quietEnv HintNumber (getProp (JStr (str ''name'')) (str ''length''))
                \<noteq> None"
    by (simp add: toPrimitive_def)
  show ?thesis
    using name
      string_bounds_validated [where s = "longString 256" and env = quietEnv
        and self = exampleBot and chatId = "JNum (Fin 42)" and w = exampleWorld]
      string_bounds_validated [where s = "longString 65" and env = quietEnv
        and self = exampleBot and w = exampleWorld and userId = "JNum (Fin 7)"
        and title = "JStr (str ''Title'')" and pngSticker = "JStr (str ''file-id'')"
        and emojis = "JStr (str '':-)'')" and options = JUndefined
        and name = "JStr (str ''name'')"]
    by (simp add: longString_def del: getProp.simps)
qed

subsection \<open>The position of a sticker\<close>

lemma frac_zero_iff_Ints: "frac (q::rat) = 0 \<longleftrightarrow> q \<in> \<int>"
  by (simp add: frac_eq_0_iff)

text \<open>
  C7. With a sticker that is not \<open>null\<close>, \<open>setStickerPositionInSet\<close> rejects every
  negative number and every position that is not an integer number (a fraction, \<open>NaN\<close>,
  an infinity, or a value that is not a number) with the validation error and the world
  unchanged; for position 0 it calls the JSON dispatch with the payload
  \<open>{sticker, position}\<close>, which sends that payload to \<open>/setStickerPositionInSet\<close>.
\<close>

theorem setStickerPositionInSet_position:
  assumes "\<not> looseNull sticker"
  shows "(num_less n (Fin 0) \<longrightarrow>
            setStickerPositionInSet env self sticker (JNum n) w
              = (Inl (InsufficientParameters ''/setStickerPositionInSet''), w))
       \<and> ((\<forall>q. position = JNum (Fin q) \<longrightarrow> q \<notin> \<int>) \<longrightarrow>
            setStickerPositionInSet env self sticker position w
              = (Inl (InsufficientParameters ''/setStickerPositionInSet''), w))
       \<and> setStickerPositionInSet env self sticker (JNum (Fin 0)) w
            = bot_request env self ''/setStickerPositionInSet''
                (JObj [(str ''sticker'', sticker), (str ''position'', JNum (Fin 0))]) w
       \<and> sentBy w (setStickerPositionInSet env self sticker (JNum (Fin 0)) w)
            = [\<lparr>reqUrl = baseURI self @ str ''/setStickerPositionInSet'',
                reqMethod = ''POST'',
                reqData = JSON_stringify
                  (JObj [(str ''sticker'', sticker), (str ''position'', JNum (Fin 0))]),
                reqHeaders = [(''Cache-Control'', ''no-cache, no-store''),
                              (''Content-Type'', ''application/json; charset=utf-8'')]\<rparr>]"
proof (intro conjI impI)
  assume "num_less n (Fin 0)"
  then show "setStickerPositionInSet env self sticker (JNum n) w
              = (Inl (InsufficientParameters ''/setStickerPositionInSet''), w)"
    by (simp add: setStickerPositionInSet_def throw_def)
next
  assume "\<forall>q. position = JNum (Fin q) \<longrightarrow> q \<notin> \<int>"
  then have "\<not> isSafeInteger position"
    by (cases position rule: isSafeInteger.cases) (simp_all add: frac_zero_iff_Ints)
  then show "setStickerPositionInSet env self sticker position w
              = (Inl (InsufficientParameters ''/setStickerPositionInSet''), w)"
    by (simp add: setStickerPositionInSet_def throw_def)
next
  show zero: "setStickerPositionInSet env self sticker (JNum (Fin 0)) w
            = bot_request env self ''/setStickerPositionInSet''
                (JObj [(str ''sticker'', sticker), (str ''position'', JNum (Fin 0))]) w"
    using assms by (simp add: setStickerPositionInSet_def)
  show "sentBy w (setStickerPositionInSet env self sticker (JNum (Fin 0)) w)
            = [\<lparr>reqUrl = baseURI self @ str ''/setStickerPositionInSet'',
                reqMethod = ''POST'',
                reqData = JSON_stringify
                  (JObj [(str ''sticker'', sticker), (str ''position'', JNum (Fin 0))]),
                reqHeaders = [(''Cache-Control'', ''no-cache, no-store''),
                              (''Content-Type'', ''application/json; charset=utf-8'')]\<rparr>]"
    unfolding zero by (simp add: sentBy_bot_request jsonRequest_def)
qed

theorem setStickerPositionInSet_position_witness:
  "\<not> looseNull exampleSticker
   \<and> num_less (Fin (- 1)) (Fin 0)
   \<and> setStickerPositionInSet quietEnv exampleBot exampleSticker (JNum (Fin (- 1))) exampleWorld
       = (Inl (InsufficientParameters ''/setStickerPositionInSet''), exampleWorld)
   \<and> setStickerPositionInSet quietEnv exampleBot exampleSticker (JNum (Fin (3 / 2))) exampleWorld
       = (Inl (InsufficientParameters ''/setStickerPositionInSet''), exampleWorld)
   \<and> setStickerPositionInSet quietEnv exampleBot exampleSticker (JStr (str ''1'')) exampleWorld
       = (Inl (InsufficientParameters ''/setStickerPositionInSet''), exampleWorld)
   \<and> sentBy exampleWorld
         (setStickerPositionInSet quietEnv exampleBot exampleSticker (JNum (Fin 0)) exampleWorld)
       = [\<lparr>reqUrl = baseURI exampleBot @ str ''/setStickerPositionInSet'',
           reqMethod = ''POST'',
           reqData = JSON_stringify
             (JObj [(str ''sticker'', exampleSticker), (str ''position'', JNum (Fin 0))]),
           reqHeaders = [(''Cache-Control'', ''no-cache, no-store''),
                         (''Content-Type'', ''application/json; charset=utf-8'')]\<rparr>]"
proof -
  have sticker: "\<not> looseNull exampleSticker"
    by (simp add: exampleSticker_def)
  have negative: "num_less (Fin (- 1)) (Fin 0)"
    by simp
  have "(3 / 2 :: rat) \<notin> \<int>"
    by simp
  then have fraction: "\<forall>q. JNum (Fin (3 / 2)) = JNum (Fin q) \<longrightarrow> q \<notin> \<int>"
    by (metis jsval.inject(2) jsnum.inject)
  have notnum: "\<forall>q. JStr (str ''1'') = JNum (Fin q) \<longrightarrow> q \<notin> \<int>"
    by simp
  note a = setStickerPositionInSet_position [OF sticker, of "Fin (- 1)" quietEnv exampleBot
      exampleWorld "JNum (Fin (3 / 2))"]
  note b = setStickerPositionInSet_position [OF sticker, of "Fin (- 1)" quietEnv exampleBot
      exampleWorld "JStr (str ''1'')"]
  from sticker negative fraction notnum a b show ?thesis
    by blast
qed

section \<open>The payload of a request\<close>

subsection \<open>The model of \<open>objects.merge\<close>\<close>

lemma map_of_setProp:
  "map_of (setProp ps k v) k' = (if k' = k then Some v else map_of ps k')"
  by (induction ps) auto

lemma map_fst_setProp:
  "map fst (setProp ps k v) = (if k \<in> set (map fst ps) then map fst ps else map fst ps @ [k])"
proof (induction ps)
  case Nil
  show ?case by simp
next
  case (Cons p ps)
  obtain k' v' where p: "p = (k', v')"
    by (cases p)
  show ?case
    unfolding p using Cons.IH by (cases "k' = k") (simp_all del: set_map)
qed

lemma keys_setProp: "set (map fst (setProp ps k v)) = insert k (set (map fst ps))"
  by (auto simp: map_fst_setProp simp del: set_map)

lemma map_of_foldl_setProp:
  "map_of (foldl (\<lambda>r p. setProp r p (f p)) r ks) k
     = (if k \<in> set ks then Some (f k) else map_of r k)"
  by (induction ks arbitrary: r) (auto simp: map_of_setProp)

lemma keys_foldl_setProp:
  "set (map fst (foldl (\<lambda>r p. setProp r p (f p)) r ks)) = set (map fst r) \<union> set ks"
  by (induction ks arbitrary: r) (simp_all add: keys_setProp del: set_map)

lemma map_of_copyProps:
  "map_of (copyProps r obj) k
     = (if k \<in> set (forInKeys obj) then Some (getProp obj k) else map_of r k)"
  by (simp add: copyProps_def map_of_foldl_setProp)

lemma keys_copyProps:
  "set (map fst (copyProps r obj)) = set (map fst r) \<union> set (forInKeys obj)"
  by (simp add: copyProps_def keys_foldl_setProp del: set_map)

lemma getProp_merge:
  "getProp (ringoMerge [a, b]) k
     = (if k \<in> set (forInKeys a) then getProp a k
        else if k \<in> set (forInKeys b) then getProp b k else JUndefined)"
  by (simp add: ringoMerge_def map_of_copyProps)

lemma keys_merge:
  "set (forInKeys (ringoMerge [a, b])) = set (forInKeys a) \<union> set (forInKeys b)"
  by (auto simp: ringoMerge_def keys_copyProps simp del: set_map)

lemma getProp_merge_base:
  "getProp (ringoMerge [JObj base, options]) k
     = (case map_of base k of
          Some v \<Rightarrow> v
        | None \<Rightarrow> if k \<in> set (forInKeys options) then getProp options k else JUndefined)"
proof (cases "map_of base k")
  case None
  then have "k \<notin> set (map fst base)"
    by (simp add: map_of_eq_None_iff)
  with None show ?thesis
    by (simp add: getProp_merge del: set_map)
next
  case (Some v)
  then have "k \<in> set (map fst base)"
    by (metis map_of_eq_None_iff option.distinct(1) set_map)
  with Some show ?thesis
    by (simp add: getProp_merge del: set_map)
qed

text \<open>
  C4, as the code has it. The operations that take the optional mapping and merge it call
  \<open>objects.merge(base, options)\<close> with the object of the required fields as the first
  argument. Each of them sends nothing when its guard rejects the call and otherwise
  dispatches the result of that call as the payload: the JSON operations send one request
  with it, the multipart operations one request with its parts (or none, when a part
  cannot be built). In the model of RingoJS's \<open>merge\<close>, in which the earliest argument
  takes precedence, the payload has the keys of both arguments; a key of the base object
  has the value of the base object, and a key that only \<open>options\<close> has has the value of
  \<open>options\<close>: on a collision the required value is kept.
\<close>

theorem payload_merges_options_under_base:
  "getProp (ringoMerge [JObj base, options]) k
     = (case map_of base k of
          Some v \<Rightarrow> v
        | None \<Rightarrow> if k \<in> set (forInKeys options) then getProp options k else JUndefined)
   \<and> set (forInKeys (ringoMerge [JObj base, options]))
     = set (map fst base) \<union> set (forInKeys options)
   \<and> sentBy w (sendMessage env self chatId text options w)
     = (if looseNull chatId \<or> looseNull text then []
        else [jsonRequest self ''/sendMessage''
            (objects_merge env
               [JObj [(str ''chat_id'', chatId),
                      (str ''text'', text)],
                options])])
   \<and> sentBy w (answerInlineQuery env self inlineQueryId results options w)
     = (if looseNull inlineQueryId \<or> looseNull results \<or> instanceofArray (JBool (\<not> truthy results)) then []
        else [jsonRequest self ''/answerInlineQuery''
            (objects_merge env
               [JObj [(str ''inline_query_id'', inlineQueryId),
                      (str ''results'', results)],
                options])])
   \<and> sentBy w (forwardMessage env self chatId fromChatId messageId options w)
     = (if looseNull chatId \<or> looseNull fromChatId \<or> looseNull messageId then []
        else [jsonRequest self ''/forwardMessage''
            (objects_merge env
               [JObj [(str ''chat_id'', chatId),
                      (str ''from_chat_id'', fromChatId),
                      (str ''message_id'', messageId)],
                options])])
   \<and> sentBy w (sendPhoto env self chatId photo options w)
     = (if looseNull chatId \<or> looseNull photo then []
        else multipartRequests env self ''/sendPhoto''
            (objects_merge env
               [JObj [(str ''chat_id'', chatId),
                      (str ''photo'', photo)],
                options]))
   \<and> sentBy w (sendAudio env self chatId audio options w)
     = (if looseNull chatId \<or> looseNull audio then []
        else multipartRequests env self ''/sendAudio''
            (objects_merge env
               [JObj [(str ''chat_id'', chatId),
                      (str ''audio'', audio)],
                options]))
   \<and> sentBy w (sendDocument env self chatId document options w)
     = (if looseNull chatId \<or> looseNull document then []
        else multipartRequests env self ''/sendDocument''
            (objects_merge env
               [JObj [(str ''chat_id'', chatId),
                      (str ''document'', document)],
                options]))
   \<and> sentBy w (sendSticker env self chatId sticker options w)
     = (if looseNull chatId \<or> looseNull sticker then []
        else multipartRequests env self ''/sendSticker''
            (objects_merge env
               [JObj [(str ''chat_id'', chatId),
                      (str ''sticker'', sticker)],
                options]))
   \<and> sentBy w (sendVideo env self chatId video options w)
     = (if looseNull chatId \<or> looseNull video then []
        else multipartRequests env self ''/sendVideo''
            (objects_merge env
               [JObj [(str ''chat_id'', chatId),
                      (str ''video'', video)],
                options]))
   \<and> sentBy w (sendVideoNote env self chatId videoNote options w)
     = (if looseNull chatId \<or> looseNull videoNote then []
        else multipartRequests env self ''/sendVideoNote''
            (objects_merge env
               [JObj [(str ''chat_id'', chatId),
                      (str ''video_note'', videoNote)],
                options]))
   \<and> sentBy w (sendVoice env self chatId voice options w)
     = (if looseNull chatId \<or> looseNull voice then []
        else multipartRequests env self ''/sendVoice''
            (objects_merge env
               [JObj [(str ''chat_id'', chatId),
                      (str ''voice'', voice)],
                options]))
   \<and> sentBy w (sendLocation env self chatId latitude longitude options w)
     = (if looseNull chatId \<or> looseNull latitude \<or> looseNull longitude then []
        else [jsonRequest self ''/sendLocation''
            (objects_merge env
               [JObj [(str ''chat_id'', chatId),
                      (str ''latitude'', latitude),
                      (str ''longitude'', longitude)],
                options])])
   \<and> sentBy w (sendVenue env self chatId latitude longitude title address options w)
     = (if looseNull chatId \<or> looseNull latitude \<or> looseNull longitude \<or> looseNull title \<or> looseNull address then []
        else [jsonRequest self ''/sendVenue''
            (objects_merge env
               [JObj [(str ''chat_id'', chatId),
                      (str ''latitude'', latitude),
                      (str ''longitude'', longitude),
                      (str ''title'', title),
                      (str ''address'', address)],
                options])])
   \<and> sentBy w (sendContact env self chatId phoneNumber firstName options w)
     = (if looseNull chatId \<or> looseNull phoneNumber \<or> looseNull firstName then []
        else [jsonRequest self ''/sendContact''
            (objects_merge env
               [JObj [(str ''chat_id'', chatId),
                      (str ''phone_number'', phoneNumber),
                      (str ''first_name'', firstName)],
                options])])
   \<and> sentBy w (getUserProfilePhotos env self userId options w)
     = (if looseNull userId then []
        else [jsonRequest self ''/getUserProfilePhotos''
            (objects_merge env
               [JObj [(str ''user_id'', userId)],
                options])])
   \<and> sentBy w (answerCallbackQuery env self callbackQueryId options w)
     = (if looseNull callbackQueryId then []
        else [jsonRequest self ''/answerCallbackQuery''
            (objects_merge env
               [JObj [(str ''callback_query_id'', callbackQueryId)],
                options])])
   \<and> sentBy w (editMessageText env self text options w)
     = (if looseNull text \<or> looseNull options then []
        else [jsonRequest self ''/editMessageText''
            (objects_merge env
               [JObj [(str ''text'', text)],
                options])])
   \<and> sentBy w (restrictChatMember env self chatId userId options w)
     = (if looseNull chatId \<or> looseNull userId then []
        else [jsonRequest self ''/restrictChatMember''
            (objects_merge env
               [JObj [(str ''chat_id'', chatId),
                      (str ''user_id'', userId)],
                (js_or options (JObj []))])])
   \<and> sentBy w (promoteChatMember env self chatId userId options w)
     = (if looseNull chatId \<or> looseNull userId then []
        else [jsonRequest self ''/promoteChatMember''
            (objects_merge env
               [JObj [(str ''chat_id'', chatId),
                      (str ''user_id'', userId)],
                (js_or options (JObj []))])])
   \<and> sentBy w (pinChatMessage env self chatId messageId options w)
     = (if looseNull chatId \<or> looseNull messageId then []
        else [jsonRequest self ''/pinChatMessage''
            (objects_merge env
               [JObj [(str ''chat_id'', chatId),
                      (str ''message_id'', messageId)],
                (js_or options (JObj []))])])
   \<and> sentBy w (createNewStickerSet env self userId name title pngSticker emojis options w)
     = (if js_any
                  [Inr (looseNull userId),
                   Inr (looseNull name),
                   js_less env (JNum (Fin 64)) (getProp name (str ''length'')),
                   Inr (looseNull title),
                   js_less env (JNum (Fin 64)) (getProp title (str ''length'')),
                   Inr (looseNull pngSticker),
                   Inr (looseNull emojis)] = Inr False
        then multipartRequests env self ''/createNewStickerSet''
            (objects_merge env
               [JObj [(str ''user_id'', userId),
                      (str ''name'', name),
                      (str ''title'', title),
                      (str ''png_sticker'', pngSticker),
                      (str ''emojis'', emojis)],
                options])
        else [])
   \<and> sentBy w (addStickerToSet env self userId name title pngSticker emojis options w)
     = (if js_any
                  [Inr (looseNull userId),
                   Inr (looseNull name),
                   js_less env (JNum (Fin 64)) (getProp name (str ''length'')),
                   Inr (looseNull title),
                   js_less env (JNum (Fin 64)) (getProp title (str ''length'')),
                   Inr (looseNull pngSticker),
                   Inr (looseNull emojis)] = Inr False
        then multipartRequests env self ''/addStickerToSet''
            (objects_merge env
               [JObj [(str ''user_id'', userId),
                      (str ''name'', name),
                      (str ''title'', title),
                      (str ''png_sticker'', pngSticker),
                      (str ''emojis'', emojis)],
                options])
        else [])"
  apply (intro conjI)
  apply (rule getProp_merge_base)
  apply (simp add: keys_merge del: set_map)
  apply (simp_all add: sentBy_throw sentBy_bot_request sentBy_bot_requestMultipart
      sendMessage_def answerInlineQuery_def forwardMessage_def sendPhoto_def sendAudio_def
      sendDocument_def sendSticker_def sendVideo_def sendVideoNote_def sendVoice_def
      sendLocation_def sendVenue_def sendContact_def getUserProfilePhotos_def answerCallbackQuery_def
      editMessageText_def restrictChatMember_def promoteChatMember_def pinChatMessage_def createNewStickerSet_def
      addStickerToSet_def
      split: sum.splits bool.splits)
  done

theorem payload_merges_options_under_base_witness:
  "getProp
     (ringoMerge
        [JObj [(str ''chat_id'', JNum (Fin 42)), (str ''text'', JStr (str ''hi''))],
         JObj [(str ''text'', JStr (str ''bye'')), (str ''parse_mode'', JStr (str ''HTML''))]])
     (str ''text'') = JStr (str ''hi'')
   \<and> getProp
     (ringoMerge
        [JObj [(str ''chat_id'', JNum (Fin 42)), (str ''text'', JStr (str ''hi''))],
         JObj [(str ''text'', JStr (str ''bye'')), (str ''parse_mode'', JStr (str ''HTML''))]])
     (str ''parse_mode'') = JStr (str ''HTML'')
   \<and> sentBy exampleWorld
       (sendMessage quietEnv exampleBot (JNum (Fin 42)) (JStr (str ''hi''))
          (JObj [(str ''text'', JStr (str ''bye'')), (str ''parse_mode'', JStr (str ''HTML''))])
          exampleWorld)
     = [jsonRequest exampleBot ''/sendMessage''
          (ringoMerge
             [JObj [(str ''chat_id'', JNum (Fin 42)), (str ''text'', JStr (str ''hi''))],
              JObj [(str ''text'', JStr (str ''bye'')),
                    (str ''parse_mode'', JStr (str ''HTML''))]])]"
proof -
  have merge: "objects_merge quietEnv = ringoMerge"
    by (simp add: quietEnv_def)
  show ?thesis
    using
      payload_merges_options_under_base
        [where base = "[(str ''chat_id'', JNum (Fin 42)), (str ''text'', JStr (str ''hi''))]"
           and options = "JObj [(str ''text'', JStr (str ''bye'')),
                                (str ''parse_mode'', JStr (str ''HTML''))]"
           and k = "str ''text''" and env = quietEnv and self = exampleBot
           and chatId = "JNum (Fin 42)" and ?text = "JStr (str ''hi'')" and w = exampleWorld]
      payload_merges_options_under_base
        [where base = "[(str ''chat_id'', JNum (Fin 42)), (str ''text'', JStr (str ''hi''))]"
           and options = "JObj [(str ''text'', JStr (str ''bye'')),
                                (str ''parse_mode'', JStr (str ''HTML''))]"
           and k = "str ''parse_mode''"]
    by (simp add: merge str_simps)
qed

text \<open>
  The claim as the specification states it fails where \<open>objects.merge\<close> is the function
  modelled above: \<open>sendMessage(42, "hi", {text: "bye"})\<close> sends the text \<open>"hi"\<close> of the
  required parameter, not the \<open>"bye"\<close> of the options.
\<close>

theorem options_do_not_override_counterexample:
  "objects_merge quietEnv = ringoMerge
   \<and> map reqData
     (sentBy exampleWorld
        (sendMessage quietEnv exampleBot (JNum (Fin 42)) (JStr (str ''hi''))
           (JObj [(str ''text'', JStr (str ''bye''))]) exampleWorld))
     = [JSON_stringify
          (JObj [(str ''text'', JStr (str ''hi'')), (str ''chat_id'', JNum (Fin 42))])]"
  by (simp add: sendMessage_def sentBy_bot_request jsonRequest_def quietEnv_def ringoMerge_def
      copyProps_def str_simps)

subsection \<open>\<open>editMessageCaption\<close>\<close>

text \<open>
  C9. \<open>editMessageCaption\<close> throws its validation error exactly when \<open>options\<close> is
  truthy, which every object is, the empty one too; the world is then unchanged. When
  \<open>options\<close> is absent (or falsy otherwise) it calls the JSON dispatch with the module
  object \<open>objects\<close> as the payload, and that is what the request carries.
\<close>

theorem editMessageCaption_inverted:
  "(fst (editMessageCaption env self options w)
      = Inl (InsufficientParameters ''/editMessageCaption'') \<longleftrightarrow> truthy options)
   \<and> (truthy options \<longrightarrow>
        editMessageCaption env self options w
          = (Inl (InsufficientParameters ''/editMessageCaption''), w))
   \<and> (\<not> truthy options \<longrightarrow>
        editMessageCaption env self options w
          = bot_request env self ''/editMessageCaption'' JObjectsModule w
        \<and> sentBy w (editMessageCaption env self options w)
          = [\<lparr>reqUrl = baseURI self @ str ''/editMessageCaption'',
              reqMethod = ''POST'',
              reqData = JSON_stringify JObjectsModule,
              reqHeaders = [(''Cache-Control'', ''no-cache, no-store''),
                            (''Content-Type'', ''application/json; charset=utf-8'')]\<rparr>])"
  by (simp add: editMessageCaption_def throw_def fst_bot_request_not_insufficient
      sentBy_bot_request jsonRequest_def)

theorem editMessageCaption_inverted_witness:
  "truthy (JObj [(str ''caption'', JStr (str ''hello''))])
   \<and> editMessageCaption quietEnv exampleBot (JObj [(str ''caption'', JStr (str ''hello''))])
         exampleWorld
       = (Inl (InsufficientParameters ''/editMessageCaption''), exampleWorld)
   \<and> editMessageCaption quietEnv exampleBot (JObj []) exampleWorld
       = (Inl (InsufficientParameters ''/editMessageCaption''), exampleWorld)
   \<and> \<not> truthy JUndefined
   \<and> sentBy exampleWorld (editMessageCaption quietEnv exampleBot JUndefined exampleWorld)
       = [\<lparr>reqUrl = baseURI exampleBot @ str ''/editMessageCaption'',
           reqMethod = ''POST'',
           reqData = JSON_stringify JObjectsModule,
           reqHeaders = [(''Cache-Control'', ''no-cache, no-store''),
                         (''Content-Type'', ''application/json; charset=utf-8'')]\<rparr>]"
proof -
  have caption: "truthy (JObj [(str ''caption'', JStr (str ''hello''))])"
    and empty: "truthy (JObj [])"
    and absent: "\<not> truthy JUndefined"
    by simp_all
  from caption empty absent
    editMessageCaption_inverted [of quietEnv exampleBot
      "JObj [(str ''caption'', JStr (str ''hello''))]" exampleWorld]
    editMessageCaption_inverted [of quietEnv exampleBot "JObj []" exampleWorld]
    editMessageCaption_inverted [of quietEnv exampleBot JUndefined exampleWorld]
  show ?thesis
    by blast
qed

subsection \<open>\<open>setWebhook\<close>\<close>

lemma parts_two:
  assumes "k1 \<noteq> k2" and "partOf env v1 = Inr p1" and "partOf env v2 = Inr p2"
  shows "multipartPayload env (JObj [(k1, v1), (k2, v2)]) = Inr [(k1, p1), (k2, p2)]"
  using assms by (simp add: multipartPayload_def)

lemma url_cert_distinct: "str ''url'' \<noteq> str ''cert''"
  by (simp add: str_simps)

lemma partOf_absent:
  "looseNull v \<Longrightarrow> partOf env v = Inr (TextPart (StringOf v) ''utf-8'' None)"
  by (cases v) (simp_all add: partOf_def js_String_def toPrimitive_def)

text \<open>
  C10. With a certificate, \<open>setWebhook\<close> takes the JSON path with the payload \<open>{url}\<close>:
  the certificate is not sent. Without one (\<open>null\<close> or \<open>undefined\<close>) it takes the
  multipart path with the payload \<open>{url, cert}\<close>; where the part of \<open>url\<close> can be
  built, as it can for every string, the request carries that part and a \<open>cert\<close> part
  that is the text of the absent value.
\<close>

theorem setWebhook_inverted:
  "(\<not> looseNull cert \<longrightarrow>
      setWebhook env self url cert w
        = bot_request env self ''/setWebhook'' (JObj [(str ''url'', url)]) w
      \<and> sentBy w (setWebhook env self url cert w)
        = [\<lparr>reqUrl = baseURI self @ str ''/setWebhook'',
            reqMethod = ''POST'',
            reqData = JSON_stringify (JObj [(str ''url'', url)]),
            reqHeaders = [(''Cache-Control'', ''no-cache, no-store''),
                          (''Content-Type'', ''application/json; charset=utf-8'')]\<rparr>])
   \<and> (looseNull cert \<longrightarrow>
      setWebhook env self url cert w
        = bot_requestMultipart env self ''/setWebhook''
            (JObj [(str ''url'', url), (str ''cert'', cert)]) w
      \<and> (partOf env url = Inr p \<longrightarrow>
           sentBy w (setWebhook env self url cert w)
             = [\<lparr>reqUrl = baseURI self @ str ''/setWebhook'',
                 reqMethod = ''POST'',
                 reqData = Parts [(str ''url'', p),
                                  (str ''cert'', TextPart (StringOf cert) ''utf-8'' None)],
                 reqHeaders = [(''Cache-Control'', ''no-cache, no-store''),
                               (''Content-Type'', ''multipart/form-data'')]\<rparr>]))"
proof (intro conjI impI)
  assume "\<not> looseNull cert"
  then show "setWebhook env self url cert w
        = bot_request env self ''/setWebhook'' (JObj [(str ''url'', url)]) w"
    and "sentBy w (setWebhook env self url cert w)
        = [\<lparr>reqUrl = baseURI self @ str ''/setWebhook'',
            reqMethod = ''POST'',
            reqData = JSON_stringify (JObj [(str ''url'', url)]),
            reqHeaders = [(''Cache-Control'', ''no-cache, no-store''),
                          (''Content-Type'', ''application/json; charset=utf-8'')]\<rparr>]"
    by (simp_all add: setWebhook_def sentBy_bot_request jsonRequest_def)
next
  assume absent: "looseNull cert"
  then show multipart: "setWebhook env self url cert w
        = bot_requestMultipart env self ''/setWebhook''
            (JObj [(str ''url'', url), (str ''cert'', cert)]) w"
    by (simp add: setWebhook_def)
  assume "partOf env url = Inr p"
  then have "multipartPayload env (JObj [(str ''url'', url), (str ''cert'', cert)])
      = Inr [(str ''url'', p), (str ''cert'', TextPart (StringOf cert) ''utf-8'' None)]"
    using parts_two [OF url_cert_distinct _ partOf_absent [OF absent]] by blast
  then show "sentBy w (setWebhook env self url cert w)
             = [\<lparr>reqUrl = baseURI self @ str ''/setWebhook'',
                 reqMethod = ''POST'',
                 reqData = Parts [(str ''url'', p),
                                  (str ''cert'', TextPart (StringOf cert) ''utf-8'' None)],
                 reqHeaders = [(''Cache-Control'', ''no-cache, no-store''),
                               (''Content-Type'', ''multipart/form-data'')]\<rparr>]"
    unfolding multipart
    by (simp add: sentBy_bot_requestMultipart multipartRequests_def multipartRequest_def)
qed

theorem setWebhook_inverted_witness:
  "\<not> looseNull callerPhoto
   \<and> map reqData
       (sentBy exampleWorld
          (setWebhook quietEnv exampleBot (JStr (str ''https://example.org/hook'')) callerPhoto
             exampleWorld))
     = [JSON_stringify (JObj [(str ''url'', JStr (str ''https://example.org/hook''))])]
   \<and> looseNull JUndefined
   \<and> partOf quietEnv (JStr (str ''https://example.org/hook''))
     = Inr (TextPart (StringOf (JStr (str ''https://example.org/hook''))) ''utf-8'' None)
   \<and> map reqData
       (sentBy exampleWorld
          (setWebhook quietEnv exampleBot (JStr (str ''https://example.org/hook'')) JUndefined
             exampleWorld))
     = [Parts [(str ''url'',
                TextPart (StringOf (JStr (str ''https://example.org/hook''))) ''utf-8'' None),
               (str ''cert'', TextPart (StringOf JUndefined) ''utf-8'' None)]]"
proof -
  have cert: "\<not> looseNull callerPhoto" and absent: "looseNull JUndefined"
    by (simp_all add: callerPhoto_def)
  have url:
    "partOf quietEnv (JStr (str ''https://example.org/hook''))
       = Inr (TextPart (StringOf (JStr (str ''https://example.org/hook''))) ''utf-8'' None)"
    by (simp add: partOf_def js_String_def toPrimitive_def)
  have json:
    "sentBy exampleWorld
       (setWebhook quietEnv exampleBot (JStr (str ''https://example.org/hook'')) callerPhoto
          exampleWorld)
     = [\<lparr>reqUrl = baseURI exampleBot @ str ''/setWebhook'',
         reqMethod = ''POST'',
         reqData = JSON_stringify (JObj [(str ''url'', JStr (str ''https://example.org/hook''))]),
         reqHeaders = [(''Cache-Control'', ''no-cache, no-store''),
                       (''Content-Type'', ''application/json; charset=utf-8'')]\<rparr>]"
    using cert
      setWebhook_inverted [of callerPhoto quietEnv exampleBot
        "JStr (str ''https://example.org/hook'')" exampleWorld]
    by blast
  have multipart:
    "sentBy exampleWorld
       (setWebhook quietEnv exampleBot (JStr (str ''https://example.org/hook'')) JUndefined
          exampleWorld)
     = [\<lparr>reqUrl = baseURI exampleBot @ str ''/setWebhook'',
         reqMethod = ''POST'',
         reqData = Parts [(str ''url'',
                           TextPart (StringOf (JStr (str ''https://example.org/hook'')))
                             ''utf-8'' None),
                          (str ''cert'', TextPart (StringOf JUndefined) ''utf-8'' None)],
         reqHeaders = [(''Cache-Control'', ''no-cache, no-store''),
                       (''Content-Type'', ''multipart/form-data'')]\<rparr>]"
    using absent url
      setWebhook_inverted [of JUndefined quietEnv exampleBot
        "JStr (str ''https://example.org/hook'')" exampleWorld
        "TextPart (StringOf (JStr (str ''https://example.org/hook''))) ''utf-8'' None"]
    by blast
  show ?thesis
    by (simp add: cert url json multipart)
qed

section \<open>Properties of the update helpers\<close>






text \<open>
  Where every identifier is negative the reduction still returns its start value: for the
  one update \<open>{update_id: -1}\<close> the function returns 0.
\<close>

lemma getHighestUpdateId_negative:
  "getHighestUpdateId env [JObj [(str ''update_id'', JNum (Fin (- 1)))]] = Inr (JNum (Fin 0))"
  by (simp add: getHighestUpdateId_def highestStep_def)

end
